theory Spec2Isabelle
  imports Complex_Main "HOL-Library.Word"
begin

section \<open>JavaScript values\<close>

subsection \<open>Strings\<close>

text \<open>
  A JavaScript string is a sequence of UTF-16 code units. String literals of the source
  are written \<open>js ''...''\<close>.
\<close>

type_synonym jschar = "16 word"
type_synonym jsstring = "jschar list"

definition js :: "string \<Rightarrow> jsstring" where
  "js s = map (\<lambda>c. of_nat (of_char c)) s"

definition comma :: jschar where "comma = 0x2C"
definition colon :: jschar where "colon = 0x3A"
definition semicolon :: jschar where "semicolon = 0x3B"

text \<open>The line terminators of ECMAScript: the characters the regular expression \<open>.\<close> rejects.\<close>

definition lineTerminator :: "jschar \<Rightarrow> bool" where
  "lineTerminator c = (c = 0x0A \<or> c = 0x0D \<or> c = 0x2028 \<or> c = 0x2029)"

text \<open>White space as \<open>String.prototype.trim\<close> strips it: WhiteSpace and LineTerminator.\<close>

definition whiteSpace :: "jschar \<Rightarrow> bool" where
  "whiteSpace c = (c = 0x09 \<or> c = 0x0B \<or> c = 0x0C \<or> c = 0x20 \<or> c = 0xA0 \<or> c = 0x1680
     \<or> (0x2000 \<le> c \<and> c \<le> 0x200A) \<or> c = 0x202F \<or> c = 0x205F \<or> c = 0x3000 \<or> c = 0xFEFF
     \<or> lineTerminator c)"

definition trim :: "jsstring \<Rightarrow> jsstring" where
  "trim s = rev (dropWhile whiteSpace (rev (dropWhile whiteSpace s)))"

text \<open>\<open>s.split(sep)\<close> for a one-character separator; \<open>"".split(",")\<close> is \<open>[""]\<close>.\<close>

fun split :: "jschar \<Rightarrow> jsstring \<Rightarrow> jsstring list" where
  "split sep [] = [[]]"
| "split sep (c # cs) =
     (if c = sep then [] # split sep cs
      else (case split sep cs of [] \<Rightarrow> [[c]] | p # ps \<Rightarrow> (c # p) # ps))"

text \<open>
  The regular expression \<open>/:(.*?);/\<close>. \<open>lazyUntilSemicolon\<close> is \<open>(.*?);\<close> anchored at
  the head of its argument: the shortest run of characters other than line terminators that
  a semicolon follows. \<open>mimeMatch\<close> is \<open>s.match(/:(.*?);/)\<close>: \<open>None\<close> for \<open>null\<close>, else the
  first capture group of the leftmost match.
\<close>

fun lazyUntilSemicolon :: "jsstring \<Rightarrow> jsstring option" where
  "lazyUntilSemicolon [] = None"
| "lazyUntilSemicolon (c # cs) =
     (if c = semicolon then Some []
      else if lineTerminator c then None
      else map_option ((#) c) (lazyUntilSemicolon cs))"

fun mimeMatch :: "jsstring \<Rightarrow> jsstring option" where
  "mimeMatch [] = None"
| "mimeMatch (c # cs) =
     (if c = colon
      then (case lazyUntilSemicolon cs of Some m \<Rightarrow> Some m | None \<Rightarrow> mimeMatch cs)
      else mimeMatch cs)"

text \<open>A template literal prints an absent value as \<open>undefined\<close>.\<close>

definition interpolate :: "jsstring option \<Rightarrow> jsstring" where
  "interpolate v = (case v of None \<Rightarrow> js ''undefined'' | Some s \<Rightarrow> s)"

subsection \<open>Numbers\<close>

text \<open>
  A JavaScript number is an IEEE 754 double. The finite ones are modelled as the reals they
  denote; every arithmetic operation of the source that rounds is written \<open>fl (...)\<close>,
  where \<open>fl\<close> is the rounding to the nearest double, a parameter of the functions that
  compute with numbers. \<open>Math.round\<close> is exact: the integer nearest to its argument, ties
  upwards. Infinities and NaN, which the source meets only when it divides by zero, are not
  modelled.
\<close>

definition Math_round :: "real \<Rightarrow> int" where
  "Math_round v = \<lfloor>v + 1 / 2\<rfloor>"

text \<open>
  What the properties of the geometry use of the rounding to the nearest double: it is
  monotone, it leaves integers and halves of integers up to \<open>2^53\<close> as they are, and in
  the range of the normal doubles its relative error is at most \<open>2^-53\<close>. Exact arithmetic
  (the identity) satisfies the same.
\<close>

definition double_rounding :: "(real \<Rightarrow> real) \<Rightarrow> bool" where
  "double_rounding rnd =
     ((\<forall>x y. x \<le> y \<longrightarrow> rnd x \<le> rnd y)
      \<and> (\<forall>n::int. \<bar>n\<bar> \<le> 2 ^ 53 \<longrightarrow>
             rnd (real_of_int n) = real_of_int n \<and> rnd (real_of_int n / 2) = real_of_int n / 2)
      \<and> (\<forall>x. 1 / 2 ^ 1022 \<le> \<bar>x\<bar> \<and> \<bar>x\<bar> \<le> 2 ^ 1023 \<longrightarrow> \<bar>rnd x - x\<bar> \<le> \<bar>x\<bar> / 2 ^ 53))"

subsection \<open>Thrown values\<close>

text \<open>
  What a \<open>throw\<close> or a rejected promise carries: an \<open>Error\<close> with its message, or a value
  that is not an \<open>Error\<close> (the event of a failed image load or file read).
\<close>

datatype thrown = Error jsstring | NonError

type_synonym 'a result = "thrown + 'a"

section \<open>The editor state\<close>

record File =
  file_name :: jsstring
  file_type :: jsstring
  file_bytes :: "8 word list"

record point =
  pt_x :: real
  pt_y :: real

datatype crop_unit = Px | Percent

record Crop =
  crop_unit :: crop_unit
  crop_x :: real
  crop_y :: real
  crop_width :: real
  crop_height :: real

datatype Tab = Tab_retouch | Tab_integrate | Tab_combine | Tab_adjust | Tab_reframe
  | Tab_enhance | Tab_filters | Tab_crop | Tab_expand | Tab_zoom

text \<open>The \<open>useState\<close> cells of \<open>App\<close>, in the order of their declaration.\<close>

record app_state =
  history :: "File list"
  historyIndex :: int
  prompt :: jsstring
  isLoading :: bool
  error :: "jsstring option"
  activeTab :: Tab
  editHotspot :: "point option"
  displayHotspot :: "point option"
  foregroundHotspot :: "point option"
  backgroundHotspot :: "point option"
  displayForegroundHotspot :: "point option"
  displayBackgroundHotspot :: "point option"
  crop :: "Crop option"
  completedCrop :: "Crop option"
  aspect :: "real option"
  enhanceCrop :: "Crop option"
  completedEnhanceCrop :: "Crop option"
  isComparing :: bool

definition initialState :: app_state where
  "initialState = \<lparr> history = [], historyIndex = - 1, prompt = [], isLoading = False,
     error = None, activeTab = Tab_retouch, editHotspot = None, displayHotspot = None,
     foregroundHotspot = None, backgroundHotspot = None, displayForegroundHotspot = None,
     displayBackgroundHotspot = None, crop = None, completedCrop = None, aspect = None,
     enhanceCrop = None, completedEnhanceCrop = None, isComparing = False \<rparr>"

subsection \<open>The history and its cursor\<close>

text \<open>\<open>history[historyIndex] ?? null\<close>: an index outside the array reads \<open>undefined\<close>.\<close>

definition currentImage :: "app_state \<Rightarrow> File option" where
  "currentImage s =
     (if 0 \<le> historyIndex s \<and> historyIndex s < int (length (history s))
      then Some (history s ! nat (historyIndex s)) else None)"

definition canUndo :: "app_state \<Rightarrow> bool" where
  "canUndo s = (historyIndex s > 0)"

definition canRedo :: "app_state \<Rightarrow> bool" where
  "canRedo s = (historyIndex s < int (length (history s)) - 1)"

definition clearInteractionPoints :: "app_state \<Rightarrow> app_state" where
  "clearInteractionPoints s = s\<lparr> editHotspot := None, displayHotspot := None,
     foregroundHotspot := None, backgroundHotspot := None,
     displayForegroundHotspot := None, displayBackgroundHotspot := None,
     enhanceCrop := None, completedEnhanceCrop := None \<rparr>"

text \<open>\<open>xs.slice(0, end)\<close>: a negative \<open>end\<close> counts from the end of the array.\<close>

definition slice0 :: "'a list \<Rightarrow> int \<Rightarrow> 'a list" where
  "slice0 xs e =
     (let len = int (length xs);
          final = (if e < 0 then max (len + e) 0 else min e len)
      in take (nat final) xs)"

definition addImageToHistory :: "File \<Rightarrow> app_state \<Rightarrow> app_state" where
  "addImageToHistory newImageFile s =
     (let newHistory = slice0 (history s) (historyIndex s + 1) @ [newImageFile]
      in clearInteractionPoints
           (s\<lparr> history := newHistory, historyIndex := int (length newHistory) - 1,
               crop := None, completedCrop := None \<rparr>))"

definition handleImageUpload :: "File \<Rightarrow> app_state \<Rightarrow> app_state" where
  "handleImageUpload file s =
     clearInteractionPoints
       (s\<lparr> error := None, history := [file], historyIndex := 0, activeTab := Tab_retouch,
           crop := None, completedCrop := None \<rparr>)"

definition handleUndo :: "app_state \<Rightarrow> app_state" where
  "handleUndo s =
     (if canUndo s then clearInteractionPoints (s\<lparr> historyIndex := historyIndex s - 1 \<rparr>)
      else s)"

definition handleRedo :: "app_state \<Rightarrow> app_state" where
  "handleRedo s =
     (if canRedo s then clearInteractionPoints (s\<lparr> historyIndex := historyIndex s + 1 \<rparr>)
      else s)"

definition handleReset :: "app_state \<Rightarrow> app_state" where
  "handleReset s =
     (if length (history s) > 0
      then clearInteractionPoints (s\<lparr> historyIndex := 0, error := None \<rparr>)
      else s)"

definition handleUploadNew :: "app_state \<Rightarrow> app_state" where
  "handleUploadNew s =
     clearInteractionPoints
       (s\<lparr> history := [], historyIndex := - 1, error := None, prompt := [] \<rparr>)"

definition handleTabSwitch :: "Tab \<Rightarrow> app_state \<Rightarrow> app_state" where
  "handleTabSwitch tab s = clearInteractionPoints (s\<lparr> activeTab := tab \<rparr>)"

text \<open>
  The operations on the history, as the toolbar and the edit handlers invoke them, and the
  state after a sequence of them.
\<close>

datatype history_op = Upload File | Append File | Undo | Redo | Reset | UploadNew

fun history_step :: "app_state \<Rightarrow> history_op \<Rightarrow> app_state" where
  "history_step s (Upload f) = handleImageUpload f s"
| "history_step s (Append f) = addImageToHistory f s"
| "history_step s Undo = handleUndo s"
| "history_step s Redo = handleRedo s"
| "history_step s Reset = handleReset s"
| "history_step s UploadNew = handleUploadNew s"

definition history_run :: "app_state \<Rightarrow> history_op list \<Rightarrow> app_state" where
  "history_run s ops = foldl history_step s ops"

text \<open>Undo, redo and reset: the operations that only move the cursor.\<close>

definition navigation :: "history_op \<Rightarrow> bool" where
  "navigation a = (a = Undo \<or> a = Redo \<or> a = Reset)"

text \<open>The cursor is \<open>-1\<close> on an empty history and an index of the history otherwise.\<close>

definition cursor_ok :: "app_state \<Rightarrow> bool" where
  "cursor_ok s =
     (if history s = [] then historyIndex s = - 1
      else 0 \<le> historyIndex s \<and> historyIndex s \<le> int (length (history s)) - 1)"


section \<open>The model service (\<open>geminiService\<close>)\<close>

subsection \<open>Responses and requests\<close>

text \<open>
  The fields of \<open>GenerateContentResponse\<close> that the source reads; all of them are optional.
  Reading the accessor \<open>response.text\<close> returns a string, returns \<open>undefined\<close>, or throws.
\<close>

record Blob =
  blob_mimeType :: "jsstring option"
  blob_data :: "jsstring option"

record Part =
  inlineData :: "Blob option"

record Content =
  parts :: "Part list option"

record Candidate =
  content :: "Content option"
  finishReason :: "jsstring option"

record PromptFeedback =
  blockReason :: "jsstring option"
  blockReasonMessage :: "jsstring option"

datatype text_accessor = Text_throws | Text_undefined | Text_is jsstring

record GenerateContentResponse =
  promptFeedback :: "PromptFeedback option"
  candidates :: "Candidate list option"
  response_text :: text_accessor

record InlinePart =
  mimeType :: jsstring
  data :: jsstring

datatype RequestPart = InlineDataPart InlinePart | TextPart jsstring

record Request =
  model :: jsstring
  contents :: "RequestPart list"

subsection \<open>The environment\<close>

text \<open>
  What the browser and the remote model do is not in the source; a handler takes it as a
  parameter: the rounding of double arithmetic, the printing of a number in a template
  literal, the values of the successive calls of \<open>Date.now()\<close>, the outcome of
  \<open>FileReader.readAsDataURL\<close>, of the constructor of the client, of \<open>generateContent\<close>
  and of \<open>atob\<close>, the natural size of a decoded image, whether a canvas of the given size has
  a 2d context, and the data URL of the canvas after the drawing; for the crop, the element
  behind \<open>imgRef.current\<close> (if any), \<open>window.devicePixelRatio\<close>, whether the canvas of the
  crop has a 2d context, and the PNG data URL of a canvas of the given size that has pixels,
  after \<open>drawImage\<close> with the given arguments.
\<close>

record geometry =
  finalWidth :: int
  finalHeight :: int
  scaleFactor :: real
  modelCanvasWidth :: int
  modelCanvasHeight :: int
  scaledOriginalWidth :: int
  scaledOriginalHeight :: int
  dxModel :: real
  dyModel :: real

text \<open>The \<open>img\<close> element that \<open>imgRef\<close> points to: its natural and its rendered size.\<close>

record ImageElement =
  img_naturalWidth :: nat
  img_naturalHeight :: nat
  img_width :: nat
  img_height :: nat

record env =
  fl :: "real \<Rightarrow> real"
  numberToString :: "real \<Rightarrow> jsstring"
  Date_now :: "nat \<Rightarrow> real"
  readAsDataURL :: "File \<Rightarrow> jsstring result"
  newGoogleGenAI :: "thrown option"
  generateContent :: "Request \<Rightarrow> GenerateContentResponse result"
  atob :: "jsstring \<Rightarrow> jsstring result"
  loadImage :: "File \<Rightarrow> (nat \<times> nat) result"
  getContext2d :: "int \<Rightarrow> int \<Rightarrow> bool"
  toDataURL :: "File \<Rightarrow> geometry \<Rightarrow> jsstring"
  imgRef :: "ImageElement option"
  devicePixelRatio :: real
  cropContext2d :: bool
  encodePNG :: "nat \<Rightarrow> nat \<Rightarrow> real list \<Rightarrow> jsstring"

subsection \<open>Encoding a file\<close>

definition fileToPart :: "env \<Rightarrow> File \<Rightarrow> InlinePart result" where
  "fileToPart ev file =
     (case readAsDataURL ev file of
        Inl e \<Rightarrow> Inl e
      | Inr dataUrl \<Rightarrow>
          (let arr = split comma dataUrl in
           if length arr < 2 then Inl (Error (js ''Invalid data URL''))
           else (case mimeMatch (arr ! 0) of
                   None \<Rightarrow> Inl (Error (js ''Could not parse MIME type from data URL''))
                 | Some m \<Rightarrow>
                     if m = [] then Inl (Error (js ''Could not parse MIME type from data URL''))
                     else Inr \<lparr> mimeType = m, data = arr ! 1 \<rparr>)))"

subsection \<open>Interpreting a response\<close>

text \<open>A string or \<open>undefined\<close> in a condition: true for a string that is not empty.\<close>

definition truthy :: "jsstring option \<Rightarrow> bool" where
  "truthy v = (case v of None \<Rightarrow> False | Some t \<Rightarrow> t \<noteq> [])"

definition blockedMessage :: "jsstring \<Rightarrow> jsstring option \<Rightarrow> jsstring" where
  "blockedMessage reason msg =
     js ''Request was blocked by safety filters (Prompt). Reason: '' @ reason @ js ''. ''
     @ (if truthy msg then the msg
        else js ''Try using a less specific prompt or a broader focus.'')"

definition stoppedMessage :: "jsstring \<Rightarrow> jsstring" where
  \<open>stoppedMessage reason =
     js ''Generation stopped by model safety system (FinishReason: '' @ reason
     @ js ''). This often happens when focusing on specific human features at high zoom levels. Technical Mitigation: Try a slightly different zoom level or frame the request as a "Macro Detail Study".''\<close>

definition textFeedback :: "GenerateContentResponse \<Rightarrow> jsstring" where
  "textFeedback response =
     (case response_text response of
        Text_throws \<Rightarrow> []
      | Text_undefined \<Rightarrow> []
      | Text_is t \<Rightarrow> t)"

definition noImageMessage :: "jsstring \<Rightarrow> jsstring \<Rightarrow> jsstring" where
  \<open>noImageMessage cntxt feedback =
     js ''No image output detected for '' @ cntxt @ js ''. ''
     @ (if trim feedback \<noteq> [] then js ''AI Feedback: "'' @ trim feedback @ js ''"''
        else js ''The system blocked the output for safety or complexity reasons.'')\<close>

text \<open>\<open>response.candidates?.[0]\<close>\<close>

definition firstCandidate :: "GenerateContentResponse \<Rightarrow> Candidate option" where
  "firstCandidate response =
     (case candidates response of
        None \<Rightarrow> None
      | Some cs \<Rightarrow> (case cs of [] \<Rightarrow> None | c # _ \<Rightarrow> Some c))"

text \<open>\<open>response.candidates?.[0]?.content?.parts?.find(part => part.inlineData)\<close>\<close>

definition imagePartFromResponse :: "GenerateContentResponse \<Rightarrow> Part option" where
  "imagePartFromResponse response =
     (case firstCandidate response of
        None \<Rightarrow> None
      | Some c \<Rightarrow>
          (case content c of
             None \<Rightarrow> None
           | Some ct \<Rightarrow>
               (case parts ct of
                  None \<Rightarrow> None
                | Some ps \<Rightarrow> find (\<lambda>part. inlineData part \<noteq> None) ps)))"

definition responseFinishReason :: "GenerateContentResponse \<Rightarrow> jsstring option" where
  "responseFinishReason response =
     (case firstCandidate response of None \<Rightarrow> None | Some c \<Rightarrow> finishReason c)"

definition responseBlockReason :: "GenerateContentResponse \<Rightarrow> jsstring option" where
  "responseBlockReason response =
     (case promptFeedback response of None \<Rightarrow> None | Some pf \<Rightarrow> blockReason pf)"

definition handleApiResponse :: "GenerateContentResponse \<Rightarrow> jsstring \<Rightarrow> jsstring result" where
  "handleApiResponse response cntxt =
     (if truthy (responseBlockReason response)
      then Inl (Error (blockedMessage (the (responseBlockReason response))
                         (blockReasonMessage (the (promptFeedback response)))))
      else (case (case imagePartFromResponse response of
                    None \<Rightarrow> None
                  | Some imagePart \<Rightarrow> inlineData imagePart) of
              Some blob \<Rightarrow>
                Inr (js ''data:'' @ interpolate (blob_mimeType blob) @ js '';base64,''
                     @ interpolate (blob_data blob))
            | None \<Rightarrow>
                if truthy (responseFinishReason response)
                   \<and> the (responseFinishReason response) \<noteq> js ''STOP''
                then Inl (Error (stoppedMessage (the (responseFinishReason response))))
                else Inl (Error (noImageMessage cntxt (textFeedback response)))))"

subsection \<open>The requests\<close>

definition newline :: jsstring where
  "newline = [0x0A]"

definition CLINICAL_CONTEXT :: jsstring where
  "CLINICAL_CONTEXT = js ''Scientific Image Processing Protocol: Execute high-fidelity anatomical reconstruction and optical simulation. Maintain 100% texture, geometry, and identity consistency. Avoid all creative interpretation; prioritize technical accuracy and photographic fidelity.''"

text \<open>\<open>fileToPart\<close> of each image in turn; the first failure ends the sequence.\<close>

fun fileParts :: "env \<Rightarrow> File list \<Rightarrow> InlinePart list result" where
  "fileParts ev [] = Inr []"
| "fileParts ev (f # fs) =
     (case fileToPart ev f of
        Inl e \<Rightarrow> Inl e
      | Inr p \<Rightarrow> (case fileParts ev fs of Inl e \<Rightarrow> Inl e | Inr ps \<Rightarrow> Inr (p # ps)))"

text \<open>
  The body every \<open>generate...Image\<close> function shares: construct the client, encode the
  images, send one request with the image parts and the instruction, interpret the response.
  The second component of the result lists the requests that were sent.
\<close>

definition callModel ::
    "env \<Rightarrow> File list \<Rightarrow> jsstring \<Rightarrow> jsstring \<Rightarrow> jsstring result \<times> Request list" where
  "callModel ev images instruction cntxt =
     (case newGoogleGenAI ev of
        Some e \<Rightarrow> (Inl e, [])
      | None \<Rightarrow>
          (case fileParts ev images of
             Inl e \<Rightarrow> (Inl e, [])
           | Inr imageParts \<Rightarrow>
               (let request = \<lparr> model = js ''gemini-2.5-flash-image'',
                                contents = map InlineDataPart imageParts @ [TextPart instruction] \<rparr>
                in (case generateContent ev request of
                      Inl e \<Rightarrow> (Inl e, [request])
                    | Inr response \<Rightarrow> (handleApiResponse response cntxt, [request])))))"

definition generateEditedImage ::
    "env \<Rightarrow> File \<Rightarrow> jsstring \<Rightarrow> point \<Rightarrow> jsstring result \<times> Request list" where
  \<open>generateEditedImage ev originalImage userPrompt hotspot =
     callModel ev [originalImage]
       (CLINICAL_CONTEXT @ newline
        @ js ''Technical Command: Targeted localized edit at coordinate (''
        @ numberToString ev (pt_x hotspot) @ js '', '' @ numberToString ev (pt_y hotspot)
        @ js '').'' @ newline
        @ js ''Modification: "'' @ userPrompt @ js ''"'' @ newline
        @ js ''Requirements: Preserve surrounding pixel-state. Return final processed result only.'')
       (js ''edit'')\<close>

definition generateFilteredImage ::
    "env \<Rightarrow> File \<Rightarrow> jsstring \<Rightarrow> jsstring result \<times> Request list" where
  \<open>generateFilteredImage ev originalImage filterPrompt =
     callModel ev [originalImage]
       (CLINICAL_CONTEXT @ newline
        @ js ''Technical Command: Stylistic pixel re-mapping: "'' @ filterPrompt @ js ''".'' @ newline
        @ js ''Requirements: Preserve geometry. Return image only.'')
       (js ''filter'')\<close>

definition generateAdjustedImage ::
    "env \<Rightarrow> File \<Rightarrow> jsstring \<Rightarrow> jsstring result \<times> Request list" where
  \<open>generateAdjustedImage ev originalImage adjustmentPrompt =
     callModel ev [originalImage]
       (CLINICAL_CONTEXT @ newline
        @ js ''Technical Command: Global optical adjustment: "'' @ adjustmentPrompt @ js ''".'' @ newline
        @ js ''Requirements: Return image only.'')
       (js ''adjustment'')\<close>

definition generateExpandedImage ::
    "env \<Rightarrow> File \<Rightarrow> jsstring \<Rightarrow> jsstring result \<times> Request list" where
  \<open>generateExpandedImage ev paddedImage userPrompt =
     callModel ev [paddedImage]
       (CLINICAL_CONTEXT @ newline
        @ js ''Technical Command: Spatial scene extension (Outpainting).'' @ newline
        @ js ''Context: "'' @ userPrompt @ js ''"'' @ newline
        @ js ''Requirements: Predict and reconstruct environment based on existing edge pixel metadata. Return image only.'')
       (js ''expansion'')\<close>

definition generateHarmonizedImage ::
    "env \<Rightarrow> File \<Rightarrow> jsstring \<Rightarrow> point \<Rightarrow> point \<Rightarrow> jsstring result \<times> Request list" where
  \<open>generateHarmonizedImage ev originalImage userPrompt foreground background =
     callModel ev [originalImage]
       (CLINICAL_CONTEXT @ newline
        @ js ''Technical Command: Compositing harmonization.'' @ newline
        @ js ''Points: FG('' @ numberToString ev (pt_x foreground) @ js '', ''
        @ numberToString ev (pt_y foreground) @ js ''), BG(''
        @ numberToString ev (pt_x background) @ js '', ''
        @ numberToString ev (pt_y background) @ js '').'' @ newline
        @ js ''Instruction: "'' @ userPrompt @ js ''"'' @ newline
        @ js ''Requirements: Synchronize lighting, shadow projection, and focal depth between planes. Return image only.'')
       (js ''harmonization'')\<close>

definition generateEnhancedImage ::
    "env \<Rightarrow> File \<Rightarrow> jsstring \<Rightarrow> Crop \<Rightarrow> jsstring result \<times> Request list" where
  \<open>generateEnhancedImage ev originalImage userPrompt region =
     callModel ev [originalImage]
       (CLINICAL_CONTEXT @ newline
        @ js ''Technical Command: Localized super-resolution enhancement.'' @ newline
        @ js ''ROI: x:'' @ numberToString ev (crop_x region)
        @ js '', y:'' @ numberToString ev (crop_y region)
        @ js '', w:'' @ numberToString ev (crop_width region)
        @ js '', h:'' @ numberToString ev (crop_height region) @ js ''.'' @ newline
        @ js ''Target Detail: "'' @ userPrompt @ js ''"'' @ newline
        @ js ''Requirements: Synthesize additional high-frequency details while adhering to source identity. Return image only.'')
       (js ''enhancement'')\<close>

definition generateReframedImage ::
    "env \<Rightarrow> File \<Rightarrow> jsstring \<Rightarrow> jsstring result \<times> Request list" where
  \<open>generateReframedImage ev originalImage cameraAnglePrompt =
     callModel ev [originalImage]
       (CLINICAL_CONTEXT @ newline
        @ js ''Technical Command: Perspective projection re-rendering.'' @ newline
        @ js ''New Camera Vector: "'' @ cameraAnglePrompt @ js ''"'' @ newline
        @ js ''Requirements: Reconstruct subject and environment from the specified angle. Preserve anatomical integrity. Return image only.'')
       (js ''reframe'')\<close>

definition generateZoomedImage ::
    "env \<Rightarrow> File \<Rightarrow> jsstring \<Rightarrow> jsstring result \<times> Request list" where
  \<open>generateZoomedImage ev originalImage zoomPrompt =
     callModel ev [originalImage]
       (CLINICAL_CONTEXT @ newline
        @ js ''Technical Command: Virtual lens focal length simulation.'' @ newline
        @ js ''Operation: "'' @ zoomPrompt @ js ''"'' @ newline
        @ js ''Guidelines: '' @ newline
        @ js ''- For magnification: Perform high-fidelity texture study and detail reconstruction.'' @ newline
        @ js ''- For reduction: Perform seamless environmental extension.'' @ newline
        @ js ''- Strictly adhere to technical photographic physics. Return ONLY image data.'')
       (js ''zoom'')\<close>

definition generateCombinedImage ::
    "env \<Rightarrow> File \<Rightarrow> File \<Rightarrow> jsstring \<Rightarrow> point \<Rightarrow> jsstring result \<times> Request list" where
  \<open>generateCombinedImage ev destinationImage sourceImage userPrompt insertionPoint =
     callModel ev [destinationImage, sourceImage]
       (CLINICAL_CONTEXT @ newline
        @ js ''Technical Command: Dual-subject multi-source integration.'' @ newline
        @ js ''Target: ('' @ numberToString ev (pt_x insertionPoint) @ js '', ''
        @ numberToString ev (pt_y insertionPoint) @ js '').'' @ newline
        @ js ''Instruction: "'' @ userPrompt @ js ''"'' @ newline
        @ js ''Requirements: Extract subject from Source, integrate into Destination. Resolve all occlusion and interaction artifacts. Return image only.'')
       (js ''combination'')\<close>

section \<open>The editor (\<open>App\<close>)\<close>

subsection \<open>Decoding a data URL\<close>

text \<open>
  The \<open>type\<close> of a new \<open>File\<close>: empty when the given type has a character outside
  U+0020 to U+007E, else the given type in ASCII lower case.
\<close>

definition fileType :: "jsstring \<Rightarrow> jsstring" where
  "fileType t =
     (if \<exists>c \<in> set t. c < 0x20 \<or> 0x7E < c then []
      else map (\<lambda>c. if 0x41 \<le> c \<and> c \<le> 0x5A then c + 0x20 else c) t)"

definition dataURLtoFile :: "env \<Rightarrow> jsstring \<Rightarrow> jsstring \<Rightarrow> File result" where
  "dataURLtoFile ev dataurl filename =
     (let arr = split comma dataurl in
      if length arr < 2 then Inl (Error (js ''Invalid data URL''))
      else (case mimeMatch (arr ! 0) of
              None \<Rightarrow> Inl (Error (js ''Could not parse MIME type from data URL''))
            | Some mime \<Rightarrow>
                if mime = [] then Inl (Error (js ''Could not parse MIME type from data URL''))
                else (case atob ev (arr ! 1) of
                        Inl e \<Rightarrow> Inl e
                      | Inr bstr \<Rightarrow>
                          Inr \<lparr> file_name = filename, file_type = fileType mime,
                                file_bytes = map ucast bstr \<rparr>)))"

subsection \<open>The shape of an edit handler\<close>

text \<open>\<open>err instanceof Error ? err.message : 'An unknown error occurred.'\<close>\<close>

definition errorMessage :: "thrown \<Rightarrow> jsstring" where
  "errorMessage err =
     (case err of Error m \<Rightarrow> m | NonError \<Rightarrow> js ''An unknown error occurred.'')"

text \<open>\<open>setIsLoading(true); setError(null);\<close>\<close>

definition beginEdit :: "app_state \<Rightarrow> app_state" where
  "beginEdit s = s\<lparr> isLoading := True, error := None \<rparr>"

text \<open>
  The \<open>try\<close>, \<open>catch\<close> and \<open>finally\<close> of a handler after the call of the service: decode
  the data URL into a file named with the \<open>k\<close>-th \<open>Date.now()\<close> and append it, or set the
  error; in both cases clear the loading flag. A handler is modelled as running to its end
  without another handler in between.
\<close>

definition finishEdit ::
    "env \<Rightarrow> jsstring \<Rightarrow> jsstring \<Rightarrow> nat \<Rightarrow> jsstring result \<times> Request list \<Rightarrow> app_state
     \<Rightarrow> app_state \<times> Request list" where
  "finishEdit ev failure filePrefix k outcome s =
     (case (case fst outcome of
              Inl e \<Rightarrow> Inl e
            | Inr url \<Rightarrow>
                dataURLtoFile ev url
                  (filePrefix @ numberToString ev (Date_now ev k) @ js ''.png'')) of
        Inr newImageFile \<Rightarrow> ((addImageToHistory newImageFile s)\<lparr> isLoading := False \<rparr>, snd outcome)
      | Inl err \<Rightarrow>
          (s\<lparr> error := Some (failure @ errorMessage err), isLoading := False \<rparr>, snd outcome))"




subsection \<open>The edit handlers\<close>

definition handleGenerate :: "env \<Rightarrow> app_state \<Rightarrow> app_state \<times> Request list" where
  "handleGenerate ev s =
     (case currentImage s of
        None \<Rightarrow> (s\<lparr> error := Some (js ''No image loaded to edit.'') \<rparr>, [])
      | Some img \<Rightarrow>
          if trim (prompt s) = []
          then (s\<lparr> error := Some (js ''Please enter a description for your edit.'') \<rparr>, [])
          else (case editHotspot s of
                  None \<Rightarrow>
                    (s\<lparr> error := Some (js ''Please click on the image to select an area to edit.'') \<rparr>, [])
                | Some hotspot \<Rightarrow>
                    finishEdit ev (js ''Failed to generate the image. '') (js ''edited-'') 0
                      (generateEditedImage ev img (prompt s) hotspot) (beginEdit s)))"

definition handleApplyFilter :: "env \<Rightarrow> jsstring \<Rightarrow> app_state \<Rightarrow> app_state \<times> Request list" where
  "handleApplyFilter ev filterPrompt s =
     (case currentImage s of
        None \<Rightarrow> (s\<lparr> error := Some (js ''No image loaded to apply a filter to.'') \<rparr>, [])
      | Some img \<Rightarrow>
          finishEdit ev (js ''Failed to apply the filter. '') (js ''filtered-'') 0
            (generateFilteredImage ev img filterPrompt) (beginEdit s))"

definition handleApplyAdjustment :: "env \<Rightarrow> jsstring \<Rightarrow> app_state \<Rightarrow> app_state \<times> Request list" where
  "handleApplyAdjustment ev adjustmentPrompt s =
     (case currentImage s of
        None \<Rightarrow> (s\<lparr> error := Some (js ''No image loaded to apply an adjustment to.'') \<rparr>, [])
      | Some img \<Rightarrow>
          finishEdit ev (js ''Failed to apply the adjustment. '') (js ''adjusted-'') 0
            (generateAdjustedImage ev img adjustmentPrompt) (beginEdit s))"

definition handleApplyReframe :: "env \<Rightarrow> jsstring \<Rightarrow> app_state \<Rightarrow> app_state \<times> Request list" where
  "handleApplyReframe ev cameraAnglePrompt s =
     (case currentImage s of
        None \<Rightarrow> (s\<lparr> error := Some (js ''No image loaded to reframe.'') \<rparr>, [])
      | Some img \<Rightarrow>
          finishEdit ev (js ''Failed to reframe the image. '') (js ''reframed-'') 0
            (generateReframedImage ev img cameraAnglePrompt) (beginEdit s))"

definition handleApplyZoom :: "env \<Rightarrow> jsstring \<Rightarrow> app_state \<Rightarrow> app_state \<times> Request list" where
  "handleApplyZoom ev zoomPrompt s =
     (case currentImage s of
        None \<Rightarrow> (s\<lparr> error := Some (js ''No image loaded to apply zoom to.'') \<rparr>, [])
      | Some img \<Rightarrow>
          finishEdit ev (js ''Failed to apply zoom. '') (js ''zoomed-'') 0
            (generateZoomedImage ev img zoomPrompt) (beginEdit s))"

definition handleApplyEnhancement :: "env \<Rightarrow> jsstring \<Rightarrow> app_state \<Rightarrow> app_state \<times> Request list" where
  "handleApplyEnhancement ev enhancementPrompt s =
     (case currentImage s of
        None \<Rightarrow> (s\<lparr> error := Some (js ''No image loaded to apply an enhancement to.'') \<rparr>, [])
      | Some img \<Rightarrow>
          if completedEnhanceCrop s = None \<or> crop_width (the (completedEnhanceCrop s)) = 0
          then (s\<lparr> error := Some (js ''Please select an area on the image to enhance.'') \<rparr>, [])
          else finishEdit ev (js ''Failed to apply the enhancement. '') (js ''enhanced-'') 0
                 (generateEnhancedImage ev img enhancementPrompt (the (completedEnhanceCrop s)))
                 (beginEdit s))"

text \<open>
  The canvas geometry of an expansion (the arithmetic of \<open>handleApplyExpansion\<close>), from
  the natural size of the image and the target aspect ratio. The local \<open>fw\<close>, \<open>fh\<close>,
  \<open>sf\<close>, \<open>cw\<close>, \<open>ch\<close>, \<open>sw\<close> and \<open>sh\<close> are the source's \<open>finalWidth\<close>,
  \<open>finalHeight\<close>, \<open>scaleFactor\<close>, \<open>modelCanvasWidth\<close>, \<open>modelCanvasHeight\<close>,
  \<open>scaledOriginalWidth\<close> and \<open>scaledOriginalHeight\<close>, the fields of the result. The size
  of a decoded image is positive.
\<close>

definition MODEL_MAX_DIM :: int where
  "MODEL_MAX_DIM = 2048"

definition expansionGeometry :: "(real \<Rightarrow> real) \<Rightarrow> nat \<Rightarrow> nat \<Rightarrow> real \<Rightarrow> geometry" where
  "expansionGeometry rnd originalWidth originalHeight aspectRatio =
     (let originalAspect = rnd (real originalWidth / real originalHeight);
          fw = (if originalAspect > aspectRatio then int originalWidth
                else Math_round (rnd (real originalHeight * aspectRatio)));
          fh = (if originalAspect > aspectRatio then Math_round (rnd (real originalWidth / aspectRatio))
                else int originalHeight);
          sf = (if fw > MODEL_MAX_DIM \<or> fh > MODEL_MAX_DIM
                then (if fw > fh then rnd (real_of_int MODEL_MAX_DIM / real_of_int fw)
                      else rnd (real_of_int MODEL_MAX_DIM / real_of_int fh))
                else 1);
          cw = Math_round (rnd (real_of_int fw * sf));
          ch = Math_round (rnd (real_of_int fh * sf));
          sw = Math_round (rnd (real originalWidth * sf));
          sh = Math_round (rnd (real originalHeight * sf))
      in \<lparr> finalWidth = fw, finalHeight = fh, scaleFactor = sf,
           modelCanvasWidth = cw, modelCanvasHeight = ch,
           scaledOriginalWidth = sw, scaledOriginalHeight = sh,
           dxModel = rnd (rnd (real_of_int cw - real_of_int sw) / 2),
           dyModel = rnd (rnd (real_of_int ch - real_of_int sh) / 2) \<rparr>)"

text \<open>The body of the \<open>try\<close> of \<open>handleApplyExpansion\<close> up to the call of the service.\<close>

definition expansionRequest ::
    "env \<Rightarrow> File \<Rightarrow> real \<Rightarrow> jsstring \<Rightarrow> jsstring result \<times> Request list" where
  "expansionRequest ev img aspectRatio userPrompt =
     (case loadImage ev img of
        Inl e \<Rightarrow> (Inl e, [])
      | Inr dims \<Rightarrow>
          (let g = expansionGeometry (fl ev) (fst dims) (snd dims) aspectRatio in
           if \<not> getContext2d ev (modelCanvasWidth g) (modelCanvasHeight g)
           then (Inl (Error (js ''Could not create canvas context for model.'')), [])
           else (case dataURLtoFile ev (toDataURL ev img g)
                        (js ''padded-for-model-'' @ numberToString ev (Date_now ev 0) @ js ''.png'') of
                   Inl e \<Rightarrow> (Inl e, [])
                 | Inr paddedImageFileForModel \<Rightarrow>
                     generateExpandedImage ev paddedImageFileForModel userPrompt)))"

definition handleApplyExpansion ::
    "env \<Rightarrow> real \<Rightarrow> jsstring \<Rightarrow> app_state \<Rightarrow> app_state \<times> Request list" where
  "handleApplyExpansion ev aspectRatio userPrompt s =
     (case currentImage s of
        None \<Rightarrow> (s\<lparr> error := Some (js ''No image loaded to expand.'') \<rparr>, [])
      | Some img \<Rightarrow>
          finishEdit ev (js ''Failed to expand the image. '') (js ''expanded-final-'') 1
            (expansionRequest ev img aspectRatio userPrompt) (beginEdit s))"

definition handleApplyHarmonize :: "env \<Rightarrow> jsstring \<Rightarrow> app_state \<Rightarrow> app_state \<times> Request list" where
  "handleApplyHarmonize ev userPrompt s =
     (case currentImage s of
        None \<Rightarrow> (s\<lparr> error := Some (js ''No image loaded to harmonize.'') \<rparr>, [])
      | Some img \<Rightarrow>
          if foregroundHotspot s = None \<or> backgroundHotspot s = None
          then (s\<lparr> error := Some (js ''Please select a foreground object and a background point.'') \<rparr>, [])
          else finishEdit ev (js ''Failed to harmonize the image. '') (js ''harmonized-'') 0
                 (generateHarmonizedImage ev img userPrompt
                    (the (foregroundHotspot s)) (the (backgroundHotspot s)))
                 (beginEdit s))"

definition handleApplyCombine ::
    "env \<Rightarrow> File \<Rightarrow> jsstring \<Rightarrow> app_state \<Rightarrow> app_state \<times> Request list" where
  "handleApplyCombine ev sourceImage userPrompt s =
     (case currentImage s of
        None \<Rightarrow> (s\<lparr> error := Some (js ''No destination image loaded.'') \<rparr>, [])
      | Some img \<Rightarrow>
          (case editHotspot s of
             None \<Rightarrow>
               (s\<lparr> error := Some (js ''Please select a location on the destination image.'') \<rparr>, [])
           | Some hotspot \<Rightarrow>
               finishEdit ev (js ''Failed to combine images. '') (js ''combined-'') 0
                 (generateCombinedImage ev img sourceImage userPrompt hotspot) (beginEdit s)))"

subsection \<open>The crop\<close>

text \<open>
  Assigning a number to \<open>canvas.width\<close> or \<open>canvas.height\<close>: the conversion to an
  unsigned long (truncate, then modulo \<open>2^32\<close>), and the default of the attribute for a
  value above \<open>2^31 - 1\<close>.
\<close>

definition canvasDimension :: "nat \<Rightarrow> real \<Rightarrow> nat" where
  "canvasDimension dflt v =
     (let n = (if v < 0 then - \<lfloor>- v\<rfloor> else \<lfloor>v\<rfloor>) mod 2 ^ 32
      in if n > 2147483647 then dflt else nat n)"

text \<open>
  \<open>canvas.toDataURL('image/png')\<close>: by the HTML standard a canvas whose bitmap has no pixels
  (its width or its height is zero) gives the string \<open>data:,\<close>.
\<close>

definition canvasDataURL :: "env \<Rightarrow> nat \<Rightarrow> nat \<Rightarrow> real list \<Rightarrow> jsstring" where
  "canvasDataURL ev w h drawn = (if w = 0 \<or> h = 0 then js ''data:,'' else encodePNG ev w h drawn)"

text \<open>
  \<open>handleApplyCrop\<close> has no \<open>try\<close>: what \<open>dataURLtoFile\<close> throws leaves the handler, and
  the result is then the thrown value (\<open>Inl\<close>) and no state, since no setter was called.
  The size the canvas gets before \<open>getContext\<close> is replaced by the size times the pixel
  ratio before anything is drawn, so only the second assignment is modelled; \<open>drawn\<close> are
  the arguments of \<open>drawImage\<close>, which paints nothing and does not throw when the source
  rectangle has no width or height.
\<close>

definition handleApplyCrop :: "env \<Rightarrow> app_state \<Rightarrow> thrown + app_state" where
  "handleApplyCrop ev s =
     (if completedCrop s = None \<or> imgRef ev = None
      then Inr (s\<lparr> error := Some (js ''Please select an area to crop.'') \<rparr>)
      else (let c = the (completedCrop s);
                element = the (imgRef ev);
                scaleX = fl ev (real (img_naturalWidth element) / real (img_width element));
                scaleY = fl ev (real (img_naturalHeight element) / real (img_height element))
            in if \<not> cropContext2d ev
               then Inr (s\<lparr> error := Some (js ''Could not process the crop.'') \<rparr>)
               else (let pixelRatio = (if devicePixelRatio ev = 0 then 1 else devicePixelRatio ev);
                         w = canvasDimension 300 (fl ev (crop_width c * pixelRatio));
                         h = canvasDimension 150 (fl ev (crop_height c * pixelRatio));
                         croppedImageUrl = canvasDataURL ev w h
                           [fl ev (crop_x c * scaleX), fl ev (crop_y c * scaleY),
                            fl ev (crop_width c * scaleX), fl ev (crop_height c * scaleY),
                            0, 0, crop_width c, crop_height c]
                     in (case dataURLtoFile ev croppedImageUrl
                                (js ''cropped-'' @ numberToString ev (Date_now ev 0) @ js ''.png'') of
                           Inl e \<Rightarrow> Inl e
                         | Inr newImageFile \<Rightarrow> Inr (addImageToHistory newImageFile s)))))"

text \<open>The nine operations that call the service, with the arguments their panels pass.\<close>

datatype edit = Retouch | Filter jsstring | Adjustment jsstring | Reframe jsstring
  | ZoomEdit jsstring | Enhancement jsstring | Expansion real jsstring | Harmonize jsstring
  | Combine File jsstring

fun runEdit :: "env \<Rightarrow> edit \<Rightarrow> app_state \<Rightarrow> app_state \<times> Request list" where
  "runEdit ev Retouch s = handleGenerate ev s"
| "runEdit ev (Filter p) s = handleApplyFilter ev p s"
| "runEdit ev (Adjustment p) s = handleApplyAdjustment ev p s"
| "runEdit ev (Reframe p) s = handleApplyReframe ev p s"
| "runEdit ev (ZoomEdit p) s = handleApplyZoom ev p s"
| "runEdit ev (Enhancement p) s = handleApplyEnhancement ev p s"
| "runEdit ev (Expansion r p) s = handleApplyExpansion ev r p s"
| "runEdit ev (Harmonize p) s = handleApplyHarmonize ev p s"
| "runEdit ev (Combine f p) s = handleApplyCombine ev f p s"

subsection \<open>Clicks on the image\<close>

record MouseEvent =
  clientX :: real
  clientY :: real
  rect_left :: real
  rect_top :: real
  naturalWidth :: nat
  naturalHeight :: nat
  clientWidth :: int
  clientHeight :: int

text \<open>The click in display coordinates and in the pixel coordinates of the image.\<close>

definition displayPoint :: "env \<Rightarrow> MouseEvent \<Rightarrow> point" where
  "displayPoint ev e =
     (let offsetX = fl ev (clientX e - rect_left e);
          offsetY = fl ev (clientY e - rect_top e)
      in \<lparr> pt_x = offsetX, pt_y = offsetY \<rparr>)"

definition originalPoint :: "env \<Rightarrow> MouseEvent \<Rightarrow> point" where
  "originalPoint ev e =
     (let offsetX = fl ev (clientX e - rect_left e);
          offsetY = fl ev (clientY e - rect_top e);
          scaleX = fl ev (real (naturalWidth e) / real_of_int (clientWidth e));
          scaleY = fl ev (real (naturalHeight e) / real_of_int (clientHeight e));
          originalX = Math_round (fl ev (offsetX * scaleX));
          originalY = Math_round (fl ev (offsetY * scaleY))
      in \<lparr> pt_x = real_of_int originalX, pt_y = real_of_int originalY \<rparr>)"

definition handleImageClick :: "env \<Rightarrow> MouseEvent \<Rightarrow> app_state \<Rightarrow> app_state" where
  "handleImageClick ev e s =
     (if activeTab s = Tab_retouch \<or> activeTab s = Tab_combine
      then s\<lparr> displayHotspot := Some (displayPoint ev e),
              editHotspot := Some (originalPoint ev e) \<rparr>
      else if activeTab s = Tab_integrate
      then (if foregroundHotspot s = None
               \<or> (foregroundHotspot s \<noteq> None \<and> backgroundHotspot s \<noteq> None)
            then s\<lparr> displayForegroundHotspot := Some (displayPoint ev e),
                    foregroundHotspot := Some (originalPoint ev e),
                    displayBackgroundHotspot := None, backgroundHotspot := None \<rparr>
            else if backgroundHotspot s = None
            then s\<lparr> displayBackgroundHotspot := Some (displayPoint ev e),
                    backgroundHotspot := Some (originalPoint ev e) \<rparr>
            else s)
      else s)"

definition clicks :: "env \<Rightarrow> MouseEvent list \<Rightarrow> app_state \<Rightarrow> app_state" where
  "clicks ev es s = foldl (\<lambda>t e. handleImageClick ev e t) s es"

text \<open>A background point is selected only together with a foreground point.\<close>

definition hotspots_ok :: "app_state \<Rightarrow> bool" where
  "hotspots_ok s = (backgroundHotspot s = None \<or> foregroundHotspot s \<noteq> None)"

subsection \<open>The panel of the combine mode\<close>

text \<open>
  \<open>CombinePanel\<close> keeps the second image and the instruction in its own state. Its button
  is disabled unless \<open>canGenerate\<close> holds, and its handler calls \<open>onApplyCombine\<close> only with a
  second image.
\<close>

definition CombinePanel_canGenerate ::
    "bool \<Rightarrow> File option \<Rightarrow> point option \<Rightarrow> jsstring \<Rightarrow> bool" where
  "CombinePanel_canGenerate loading sourceImage insertionHotspot panelPrompt =
     (\<not> loading \<and> sourceImage \<noteq> None \<and> insertionHotspot \<noteq> None \<and> trim panelPrompt \<noteq> [])"

definition CombinePanel_onClick ::
    "env \<Rightarrow> File option \<Rightarrow> jsstring \<Rightarrow> app_state \<Rightarrow> app_state \<times> Request list" where
  "CombinePanel_onClick ev sourceImage panelPrompt s =
     (case sourceImage of
        None \<Rightarrow> (s, [])
      | Some f \<Rightarrow> handleApplyCombine ev f panelPrompt s)"

definition CombinePanel_button ::
    "env \<Rightarrow> File option \<Rightarrow> jsstring \<Rightarrow> app_state \<Rightarrow> app_state \<times> Request list" where
  "CombinePanel_button ev sourceImage panelPrompt s =
     (if CombinePanel_canGenerate (isLoading s) sourceImage (editHotspot s) panelPrompt
      then CombinePanel_onClick ev sourceImage panelPrompt s
      else (s, []))"

section \<open>Properties\<close>

subsection \<open>States and environments for the examples\<close>

definition version :: "nat \<Rightarrow> File" where
  "version n = \<lparr> file_name = js ''image.png'', file_type = js ''image/png'',
     file_bytes = [of_nat n] \<rparr>"

definition stateAt :: "File list \<Rightarrow> int \<Rightarrow> app_state" where
  "stateAt h i = initialState\<lparr> history := h, historyIndex := i \<rparr>"

definition session :: "history_op list" where
  "session = [Upload (version 1), Append (version 2), Append (version 3), Undo, Undo, Redo,
     Append (version 4), Reset, Redo, Undo, Undo]"

definition imageResponse :: GenerateContentResponse where
  "imageResponse = \<lparr> promptFeedback = None,
     candidates = Some [\<lparr> content = Some \<lparr> parts = Some [\<lparr> inlineData =
         Some \<lparr> blob_mimeType = Some (js ''image/png''), blob_data = Some (js ''QUJD'') \<rparr> \<rparr>] \<rparr>,
       finishReason = Some (js ''STOP'') \<rparr>],
     response_text = Text_undefined \<rparr>"

definition blockedResponse :: GenerateContentResponse where
  "blockedResponse = imageResponse\<lparr> promptFeedback :=
     Some \<lparr> blockReason = Some (js ''SAFETY''), blockReasonMessage = None \<rparr> \<rparr>"

definition stoppedResponse :: GenerateContentResponse where
  "stoppedResponse = \<lparr> promptFeedback = None,
     candidates = Some [\<lparr> content = None, finishReason = Some (js ''IMAGE_SAFETY'') \<rparr>],
     response_text = Text_undefined \<rparr>"

definition textResponse :: GenerateContentResponse where
  "textResponse = \<lparr> promptFeedback = None,
     candidates = Some [\<lparr> content = Some \<lparr> parts = Some [\<lparr> inlineData = None \<rparr>] \<rparr>,
       finishReason = Some (js ''STOP'') \<rparr>],
     response_text = Text_is (js '' Sorry '') \<rparr>"

text \<open>
  An environment in which every step succeeds: exact arithmetic, a reader and a canvas that
  give a PNG data URL, and a service that answers \<open>imageResponse\<close>.
\<close>

definition exampleEnv :: env where
  "exampleEnv = \<lparr> fl = (\<lambda>v. v), numberToString = (\<lambda>v. js ''7''),
     Date_now = (\<lambda>k. 1700000000000 + real k),
     readAsDataURL = (\<lambda>f. Inr (js ''data:image/png;base64,QUJD'')),
     newGoogleGenAI = None,
     generateContent = (\<lambda>request. Inr imageResponse),
     atob = (\<lambda>b. Inr (js ''ABC'')),
     loadImage = (\<lambda>f. Inr (1000, 500)),
     getContext2d = (\<lambda>w h. True),
     toDataURL = (\<lambda>f g. js ''data:image/png;base64,QUJD''),
     imgRef = Some \<lparr> img_naturalWidth = 2000, img_naturalHeight = 1000,
                     img_width = 1000, img_height = 500 \<rparr>,
     devicePixelRatio = 2,
     cropContext2d = True,
     encodePNG = (\<lambda>w h drawn. js ''data:image/png;base64,QUJD'') \<rparr>"



text \<open>A crop of no size, as a click on the image without a drag completes it.\<close>

definition emptyCrop :: Crop where
  "emptyCrop = \<lparr> crop_unit = Px, crop_x = 10, crop_y = 20, crop_width = 0, crop_height = 0 \<rparr>"

text \<open>
  A click at the given client position on an image of 2000 by 1000 pixels that is shown at
  half its size, with its corner at (10, 20).
\<close>

definition clickAt :: "real \<Rightarrow> real \<Rightarrow> MouseEvent" where
  "clickAt cx cy = \<lparr> clientX = cx, clientY = cy, rect_left = 10, rect_top = 20,
     naturalWidth = 2000, naturalHeight = 1000, clientWidth = 1000, clientHeight = 500 \<rparr>"

text \<open>One image loaded and a point selected on it.\<close>

definition readyState :: app_state where
  "readyState = (stateAt [version 1] 0)\<lparr> prompt := js ''brighten'',
     editHotspot := Some \<lparr> pt_x = 30, pt_y = 40 \<rparr> \<rparr>"


subsection \<open>The history\<close>

lemma history_clearInteractionPoints [simp]:
  "history (clearInteractionPoints s) = history s"
  "historyIndex (clearInteractionPoints s) = historyIndex s"
  by (simp_all add: clearInteractionPoints_def)

lemma slice0_take: "- 1 \<le> i \<Longrightarrow> slice0 xs (i + 1) = take (nat (i + 1)) xs"
  by (simp add: slice0_def Let_def min_def)

lemma cursor_ok_lower: "cursor_ok s \<Longrightarrow> - 1 \<le> historyIndex s"
  by (simp add: cursor_ok_def split: if_splits)

lemma history_addImageToHistory:
  "history (addImageToHistory d s) = slice0 (history s) (historyIndex s + 1) @ [d]"
  by (simp add: addImageToHistory_def Let_def)

lemma historyIndex_addImageToHistory:
  "historyIndex (addImageToHistory d s) = int (length (history (addImageToHistory d s))) - 1"
  by (simp add: addImageToHistory_def Let_def)

lemma history_handleUndo [simp]: "history (handleUndo s) = history s"
  by (simp add: handleUndo_def)

lemma history_handleRedo [simp]: "history (handleRedo s) = history s"
  by (simp add: handleRedo_def)

lemma history_handleReset [simp]: "history (handleReset s) = history s"
  by (simp add: handleReset_def)

lemma cursor_ok_handleUndo: "cursor_ok s \<Longrightarrow> cursor_ok (handleUndo s)"
  by (auto simp: cursor_ok_def handleUndo_def canUndo_def split: if_splits)

lemma cursor_ok_handleRedo: "cursor_ok s \<Longrightarrow> cursor_ok (handleRedo s)"
  by (auto simp: cursor_ok_def handleRedo_def canRedo_def split: if_splits)

lemma cursor_ok_handleReset: "cursor_ok s \<Longrightarrow> cursor_ok (handleReset s)"
  by (auto simp: cursor_ok_def handleReset_def split: if_splits)

lemma cursor_ok_handleUploadNew: "cursor_ok (handleUploadNew s)"
  by (simp add: cursor_ok_def handleUploadNew_def)

lemma cursor_ok_handleImageUpload: "cursor_ok (handleImageUpload f s)"
  by (simp add: cursor_ok_def handleImageUpload_def)

lemma cursor_ok_addImageToHistory: "cursor_ok (addImageToHistory f s)"
  by (simp add: cursor_ok_def history_addImageToHistory historyIndex_addImageToHistory)

lemma cursor_ok_history_step: "cursor_ok s \<Longrightarrow> cursor_ok (history_step s a)"
  by (cases a)
    (simp_all add: cursor_ok_handleUndo cursor_ok_handleRedo cursor_ok_handleReset
       cursor_ok_handleUploadNew cursor_ok_handleImageUpload cursor_ok_addImageToHistory)

lemma cursor_ok_history_run: "cursor_ok s \<Longrightarrow> cursor_ok (history_run s ops)"
  unfolding history_run_def
  by (induction ops arbitrary: s) (simp_all add: cursor_ok_history_step)

lemma cursor_ok_initialState: "cursor_ok initialState"
  by (simp add: cursor_ok_def initialState_def)

lemma currentImage_cursor_ok:
  "cursor_ok s \<Longrightarrow>
   currentImage s = (if history s = [] then None else Some (history s ! nat (historyIndex s)))"
  by (auto simp: cursor_ok_def currentImage_def split: if_splits)

lemma not_canRedo_addImageToHistory: "\<not> canRedo (addImageToHistory f s)"
  by (simp add: canRedo_def historyIndex_addImageToHistory)

lemma history_navigation_step: "navigation a \<Longrightarrow> history (history_step s a) = history s"
  by (auto simp: navigation_def)

lemma history_navigation_run:
  "list_all navigation navs \<Longrightarrow> history (history_run s navs) = history s"
  unfolding history_run_def
  by (induction navs arbitrary: s) (simp_all add: history_navigation_step)

lemma currentImage_in_history:
  "cursor_ok s \<Longrightarrow> history s \<noteq> [] \<Longrightarrow> currentImage s \<in> Some ` set (history s)"
  by (auto simp: cursor_ok_def currentImage_def split: if_splits)

text \<open>
  Claim C1. From a state whose cursor is valid, \<open>addImageToHistory\<close> keeps the versions up
  to the cursor, discards the later ones, appends the new version and moves the cursor to the
  new last index; after an undo this discards the version that was current and all after it.
  Whatever undo, redo and reset follow, the current version is one of the kept versions or
  the new one, so a discarded version is unreachable.
\<close>
theorem append_after_undo:
  assumes "cursor_ok s"
  shows "history (addImageToHistory d s) = take (nat (historyIndex s + 1)) (history s) @ [d]
    \<and> historyIndex (addImageToHistory d s) = int (length (history (addImageToHistory d s))) - 1
    \<and> history (addImageToHistory d (handleUndo s))
        = take (nat (historyIndex (handleUndo s) + 1)) (history s) @ [d]
    \<and> (canUndo s \<longrightarrow> historyIndex (handleUndo s) = historyIndex s - 1
          \<and> history (addImageToHistory d (handleUndo s)) = take (nat (historyIndex s)) (history s) @ [d])
    \<and> historyIndex (addImageToHistory d (handleUndo s))
        = int (length (history (addImageToHistory d (handleUndo s)))) - 1
    \<and> (\<forall>navs. list_all navigation navs \<longrightarrow>
          currentImage (history_run (addImageToHistory d (handleUndo s)) navs)
            \<in> Some ` set (take (nat (historyIndex (handleUndo s) + 1)) (history s) @ [d]))"
proof -
  have lo: "- 1 \<le> historyIndex s"
    using assms by (rule cursor_ok_lower)
  have ok_u: "cursor_ok (handleUndo s)"
    using assms by (rule cursor_ok_handleUndo)
  have lo_u: "- 1 \<le> historyIndex (handleUndo s)"
    using ok_u by (rule cursor_ok_lower)
  have h1: "history (addImageToHistory d s) = take (nat (historyIndex s + 1)) (history s) @ [d]"
    by (simp add: history_addImageToHistory slice0_take [OF lo])
  have h2: "history (addImageToHistory d (handleUndo s))
        = take (nat (historyIndex (handleUndo s) + 1)) (history s) @ [d]"
    by (simp add: history_addImageToHistory slice0_take [OF lo_u])
  have h3: "canUndo s \<longrightarrow> historyIndex (handleUndo s) = historyIndex s - 1
          \<and> history (addImageToHistory d (handleUndo s)) = take (nat (historyIndex s)) (history s) @ [d]"
  proof
    assume u: "canUndo s"
    then have "historyIndex (handleUndo s) = historyIndex s - 1"
      by (simp add: handleUndo_def)
    with h2 show "historyIndex (handleUndo s) = historyIndex s - 1
          \<and> history (addImageToHistory d (handleUndo s)) = take (nat (historyIndex s)) (history s) @ [d]"
      by simp
  qed
  have h4: "\<forall>navs. list_all navigation navs \<longrightarrow>
          currentImage (history_run (addImageToHistory d (handleUndo s)) navs)
            \<in> Some ` set (take (nat (historyIndex (handleUndo s) + 1)) (history s) @ [d])"
  proof (intro allI impI)
    fix navs assume n: "list_all navigation navs"
    let ?t = "history_run (addImageToHistory d (handleUndo s)) navs"
    have hist: "history ?t = take (nat (historyIndex (handleUndo s) + 1)) (history s) @ [d]"
      using history_navigation_run [OF n] h2 by simp
    have ok: "cursor_ok ?t"
      by (rule cursor_ok_history_run) (rule cursor_ok_addImageToHistory)
    have "currentImage ?t \<in> Some ` set (history ?t)"
      using ok hist by (intro currentImage_in_history) simp_all
    then show "currentImage ?t \<in> Some ` set (take (nat (historyIndex (handleUndo s) + 1)) (history s) @ [d])"
      using hist by simp
  qed
  show ?thesis
    using h1 h2 h3 h4 by (simp add: historyIndex_addImageToHistory)
qed

lemma version_inj [simp]: "(version m = version n) = ((of_nat m :: 8 word) = of_nat n)"
  by (simp add: version_def)

text \<open>
  The example of claim C1: history \<open>[A, B, C]\<close> at cursor 2; undo gives cursor 1, appending
  \<open>D\<close> gives \<open>[A, B, D]\<close> at cursor 2, and no navigation reaches \<open>C\<close>.
\<close>
theorem append_after_undo_witness:
  "cursor_ok (stateAt [version 1, version 2, version 3] 2)
   \<and> historyIndex (handleUndo (stateAt [version 1, version 2, version 3] 2)) = 1
   \<and> history (addImageToHistory (version 4) (handleUndo (stateAt [version 1, version 2, version 3] 2)))
       = [version 1, version 2, version 4]
   \<and> historyIndex (addImageToHistory (version 4) (handleUndo (stateAt [version 1, version 2, version 3] 2))) = 2
   \<and> version 3 \<notin> set (history
         (addImageToHistory (version 4) (handleUndo (stateAt [version 1, version 2, version 3] 2))))
   \<and> currentImage (history_run
         (addImageToHistory (version 4) (handleUndo (stateAt [version 1, version 2, version 3] 2)))
         [Redo, Redo, Undo, Redo, Reset, Redo, Redo]) \<noteq> Some (version 3)"
proof -
  let ?s = "stateAt [version 1, version 2, version 3] 2"
  have ok: "cursor_ok ?s"
    by (simp add: cursor_ok_def stateAt_def initialState_def)
  have u: "canUndo ?s" "historyIndex ?s = 2" "history ?s = [version 1, version 2, version 3]"
    by (simp_all add: canUndo_def stateAt_def initialState_def)
  note t = append_after_undo [OF ok, of "version 4"]
  have i: "historyIndex (handleUndo ?s) = 1"
    using t u by simp
  have h: "history (addImageToHistory (version 4) (handleUndo ?s)) = [version 1, version 2, version 4]"
    using t u by (simp add: numeral_2_eq_2)
  have c: "historyIndex (addImageToHistory (version 4) (handleUndo ?s)) = 2"
    using t h by simp
  have n: "version 3 \<notin> set (history (addImageToHistory (version 4) (handleUndo ?s)))"
    using h by simp
  have nav: "list_all navigation [Redo, Redo, Undo, Redo, Reset, Redo, Redo]"
    by (simp add: navigation_def)
  have "currentImage (history_run (addImageToHistory (version 4) (handleUndo ?s))
          [Redo, Redo, Undo, Redo, Reset, Redo, Redo])
       \<in> Some ` set (take (nat (historyIndex (handleUndo ?s) + 1)) (history ?s) @ [version 4])"
    using t nav by blast
  then have r: "currentImage (history_run (addImageToHistory (version 4) (handleUndo ?s))
          [Redo, Redo, Undo, Redo, Reset, Redo, Redo]) \<noteq> Some (version 3)"
    using i u by (auto simp: numeral_2_eq_2)
  show ?thesis using ok i h c n r by blast
qed

lemma historyIndex_handleReset: "history s \<noteq> [] \<Longrightarrow> historyIndex (handleReset s) = 0"
  by (simp add: handleReset_def)

lemma handleReset_empty: "history s = [] \<Longrightarrow> handleReset s = s"
  by (simp add: handleReset_def)

lemma historyIndex_handleRedo:
  "historyIndex s < int (length (history s)) - 1 \<Longrightarrow> historyIndex (handleRedo s) = historyIndex s + 1"
  by (simp add: handleRedo_def canRedo_def)

lemma redo_steps:
  "historyIndex s = 0 \<Longrightarrow> k < length (history s) \<Longrightarrow>
   historyIndex ((handleRedo ^^ k) s) = int k \<and> history ((handleRedo ^^ k) s) = history s"
proof (induction k)
  case 0
  then show ?case by simp
next
  case (Suc k)
  then have ih: "historyIndex ((handleRedo ^^ k) s) = int k" "history ((handleRedo ^^ k) s) = history s"
    by simp_all
  have "historyIndex ((handleRedo ^^ k) s) < int (length (history ((handleRedo ^^ k) s))) - 1"
    using ih Suc.prems by simp
  then have "historyIndex (handleRedo ((handleRedo ^^ k) s)) = historyIndex ((handleRedo ^^ k) s) + 1"
    by (rule historyIndex_handleRedo)
  with ih show ?case by simp
qed

text \<open>
  Claim C5. \<open>handleReset\<close> leaves the history as it is and, when the history is not empty,
  moves the cursor to 0; from there \<open>k\<close> redos reach the version at index \<open>k\<close>, for every
  index of the history.
\<close>
theorem reset_keeps_history:
  "history (handleReset s) = history s
   \<and> (history s = [] \<longrightarrow> handleReset s = s)
   \<and> (history s \<noteq> [] \<longrightarrow> historyIndex (handleReset s) = 0)
   \<and> (\<forall>k < length (history s).
         historyIndex ((handleRedo ^^ k) (handleReset s)) = int k
       \<and> history ((handleRedo ^^ k) (handleReset s)) = history s
       \<and> currentImage ((handleRedo ^^ k) (handleReset s)) = Some (history s ! k))"
proof -
  have "historyIndex ((handleRedo ^^ k) (handleReset s)) = int k
       \<and> history ((handleRedo ^^ k) (handleReset s)) = history s
       \<and> currentImage ((handleRedo ^^ k) (handleReset s)) = Some (history s ! k)"
    if k: "k < length (history s)" for k
  proof -
    from k have ne: "history s \<noteq> []" by auto
    have z: "historyIndex (handleReset s) = 0"
      using ne by (rule historyIndex_handleReset)
    have r: "historyIndex ((handleRedo ^^ k) (handleReset s)) = int k
        \<and> history ((handleRedo ^^ k) (handleReset s)) = history (handleReset s)"
      using z k by (intro redo_steps) simp_all
    then show ?thesis
      using k by (simp add: currentImage_def)
  qed
  then show ?thesis
    by (simp add: historyIndex_handleReset handleReset_empty)
qed

text \<open>
  The example of claim C5: \<open>[A, B, C]\<close> at cursor 2; reset gives cursor 0 and the same
  history, one redo reaches \<open>B\<close>, a second one \<open>C\<close>.
\<close>
theorem reset_keeps_history_witness:
  "historyIndex (handleReset (stateAt [version 1, version 2, version 3] 2)) = 0
   \<and> history (handleReset (stateAt [version 1, version 2, version 3] 2))
       = [version 1, version 2, version 3]
   \<and> currentImage (handleRedo (handleReset (stateAt [version 1, version 2, version 3] 2)))
       = Some (version 2)
   \<and> currentImage (handleRedo (handleRedo (handleReset (stateAt [version 1, version 2, version 3] 2))))
       = Some (version 3)"
proof -
  let ?s = "stateAt [version 1, version 2, version 3] 2"
  have h: "history ?s = [version 1, version 2, version 3]"
    by (simp add: stateAt_def initialState_def)
  note t = reset_keeps_history [of ?s]
  have a: "historyIndex (handleReset ?s) = 0" "history (handleReset ?s) = [version 1, version 2, version 3]"
    using t h by simp_all
  note r = t [THEN conjunct2, THEN conjunct2, THEN conjunct2, rule_format]
  have "currentImage ((handleRedo ^^ Suc 0) (handleReset ?s)) = Some (history ?s ! Suc 0)"
    using r [of "Suc 0"] h by simp
  then have b: "currentImage (handleRedo (handleReset ?s)) = Some (version 2)"
    using h by simp
  have "currentImage ((handleRedo ^^ Suc (Suc 0)) (handleReset ?s)) = Some (history ?s ! Suc (Suc 0))"
    using r [of "Suc (Suc 0)"] h by simp
  then have c: "currentImage (handleRedo (handleRedo (handleReset ?s))) = Some (version 3)"
    using h by simp
  show ?thesis using a b c by simp
qed


text \<open>
  Claim C6. The initial state satisfies \<open>cursor_ok\<close> and each history operation (upload,
  append, undo, redo, reset, upload-new) preserves it, hence every state reached by a
  sequence of them; under it the current version is the one at the cursor, or none on an
  empty history. After an append the cursor is the last index and redo is impossible.
\<close>
theorem cursor_invariant:
  "cursor_ok initialState
   \<and> (cursor_ok s \<longrightarrow> cursor_ok (history_step s a))
   \<and> (cursor_ok s \<longrightarrow> cursor_ok (history_run s ops))
   \<and> cursor_ok (history_run initialState ops)
   \<and> (cursor_ok s \<longrightarrow>
        currentImage s = (if history s = [] then None else Some (history s ! nat (historyIndex s))))
   \<and> historyIndex (addImageToHistory f s) = int (length (history (addImageToHistory f s))) - 1
   \<and> \<not> canRedo (addImageToHistory f s)
   \<and> handleRedo (addImageToHistory f s) = addImageToHistory f s
   \<and> \<not> canRedo (history_run s (ops @ [Append f]))"
proof -
  have "\<not> canRedo (history_run s (ops @ [Append f]))"
    by (simp add: history_run_def not_canRedo_addImageToHistory)
  moreover have "handleRedo (addImageToHistory f s) = addImageToHistory f s"
    by (simp add: handleRedo_def not_canRedo_addImageToHistory)
  ultimately show ?thesis
    using cursor_ok_initialState cursor_ok_history_step cursor_ok_history_run
      currentImage_cursor_ok historyIndex_addImageToHistory not_canRedo_addImageToHistory
    by presburger
qed


lemma session_run:
  "history (history_run initialState session) = [version 1, version 2, version 4]"
  "historyIndex (history_run initialState session) = 0"
  by (simp_all add: session_def history_run_def initialState_def handleImageUpload_def
      addImageToHistory_def handleUndo_def handleRedo_def handleReset_def canUndo_def canRedo_def
      clearInteractionPoints_def slice0_def Let_def)


theorem cursor_invariant_witness:
  "cursor_ok (history_run initialState session)
   \<and> history (history_run initialState session) = [version 1, version 2, version 4]
   \<and> historyIndex (history_run initialState session) = 0
   \<and> currentImage (history_run initialState session) = Some (version 1)
   \<and> \<not> canRedo (history_run initialState (session @ [Append (version 5)]))
   \<and> cursor_ok (history_run initialState [UploadNew])"
proof -
  note t = cursor_invariant [of "history_run initialState session" _ session]
  have ok: "cursor_ok (history_run initialState session)"
    using t by blast
  have cur: "currentImage (history_run initialState session) = Some (version 1)"
    using t ok by (simp add: session_run)
  have nr: "\<not> canRedo (history_run initialState (session @ [Append (version 5)]))"
    using cursor_invariant [of initialState _ session "version 5"] by blast
  have e: "cursor_ok (history_run initialState [UploadNew])"
    using cursor_invariant [of initialState _ "[UploadNew]"] by blast
  show ?thesis using ok cur nr e session_run by simp
qed



subsection \<open>split and the regular expression\<close>

lemma split_not_Nil [simp]: "split sep s \<noteq> []"
  by (induction s) (auto split: list.splits)

lemma split_no_separator: "sep \<notin> set s \<Longrightarrow> split sep s = [s]"
  by (induction s) auto

lemma length_split_separator: "sep \<in> set s \<Longrightarrow> 2 \<le> length (split sep s)"
proof (induction s)
  case Nil
  then show ?case by simp
next
  case (Cons c cs)
  show ?case
  proof (cases "c = sep")
    case True
    have "1 \<le> length (split sep cs)"
      by (cases "split sep cs") simp_all
    with True show ?thesis by simp
  next
    case False
    with Cons.prems have "sep \<in> set cs" by simp
    then have "2 \<le> length (split sep cs)" by (rule Cons.IH)
    with False show ?thesis by (cases "split sep cs") simp_all
  qed
qed

lemma split_head: "split sep s ! 0 = takeWhile (\<lambda>c. c \<noteq> sep) s"
proof (induction s)
  case Nil
  then show ?case by simp
next
  case (Cons c cs)
  then show ?case by (cases "split sep cs") simp_all
qed

lemma lazyUntilSemicolon_Some:
  "lazyUntilSemicolon cs = Some m \<longleftrightarrow>
     (\<exists>b. cs = m @ semicolon # b \<and> semicolon \<notin> set m \<and> (\<forall>c \<in> set m. \<not> lineTerminator c))"
proof (induction cs arbitrary: m)
  case Nil
  then show ?case by simp
next
  case (Cons c cs)
  show ?case
  proof (cases "c = semicolon")
    case True
    then show ?thesis by (cases m) auto
  next
    case ns: False
    show ?thesis
    proof (cases "lineTerminator c")
      case True
      with ns show ?thesis by (cases m) auto
    next
      case False
      with ns Cons.IH show ?thesis by (cases m) auto
    qed
  qed
qed

lemma lazyUntilSemicolon_None:
  "lazyUntilSemicolon cs = None \<longleftrightarrow>
     \<not> (\<exists>m b. cs = m @ semicolon # b \<and> (\<forall>c \<in> set m. \<not> lineTerminator c))"
proof (induction cs)
  case Nil
  then show ?case by simp
next
  case (Cons c cs)
  show ?case
  proof (cases "c = semicolon")
    case True
    have "c # cs = [] @ semicolon # cs \<and> (\<forall>c \<in> set []. \<not> lineTerminator c)"
      using True by simp
    then have "\<exists>m b. c # cs = m @ semicolon # b \<and> (\<forall>c \<in> set m. \<not> lineTerminator c)"
      by blast
    with True show ?thesis by simp
  next
    case ns: False
    show ?thesis
    proof (cases "lineTerminator c")
      case True
      have "\<not> (\<exists>m b. c # cs = m @ semicolon # b \<and> (\<forall>c \<in> set m. \<not> lineTerminator c))"
      proof
        assume "\<exists>m b. c # cs = m @ semicolon # b \<and> (\<forall>c \<in> set m. \<not> lineTerminator c)"
        then obtain m b where e: "c # cs = m @ semicolon # b" and l: "\<forall>c \<in> set m. \<not> lineTerminator c"
          by blast
        show False
        proof (cases m)
          case Nil
          with e ns show False by simp
        next
          case (Cons x xs)
          with e l True show False by simp
        qed
      qed
      with ns True show ?thesis by simp
    next
      case False
      have "(\<exists>m b. c # cs = m @ semicolon # b \<and> (\<forall>c \<in> set m. \<not> lineTerminator c))
          \<longleftrightarrow> (\<exists>m b. cs = m @ semicolon # b \<and> (\<forall>c \<in> set m. \<not> lineTerminator c))"
      proof
        assume "\<exists>m b. c # cs = m @ semicolon # b \<and> (\<forall>c \<in> set m. \<not> lineTerminator c)"
        then obtain m b where e: "c # cs = m @ semicolon # b" and l: "\<forall>c \<in> set m. \<not> lineTerminator c"
          by blast
        show "\<exists>m b. cs = m @ semicolon # b \<and> (\<forall>c \<in> set m. \<not> lineTerminator c)"
        proof (cases m)
          case Nil
          with e ns show ?thesis by simp
        next
          case (Cons x xs)
          with e l have "cs = xs @ semicolon # b \<and> (\<forall>c \<in> set xs. \<not> lineTerminator c)" by simp
          then show ?thesis by blast
        qed
      next
        assume "\<exists>m b. cs = m @ semicolon # b \<and> (\<forall>c \<in> set m. \<not> lineTerminator c)"
        then obtain m b where e: "cs = m @ semicolon # b" and l: "\<forall>c \<in> set m. \<not> lineTerminator c"
          by blast
        have "c # cs = (c # m) @ semicolon # b \<and> (\<forall>x \<in> set (c # m). \<not> lineTerminator x)"
          using e l False by simp
        then show "\<exists>m b. c # cs = m @ semicolon # b \<and> (\<forall>c \<in> set m. \<not> lineTerminator c)"
          by blast
      qed
      with ns False Cons.IH show ?thesis by simp
    qed
  qed
qed

text \<open>No match: no colon is followed on its line by a semicolon.\<close>

lemma mimeMatch_None:
  "mimeMatch p = None \<longleftrightarrow>
     \<not> (\<exists>a m b. p = a @ colon # m @ semicolon # b \<and> (\<forall>c \<in> set m. \<not> lineTerminator c))"
proof (induction p)
  case Nil
  then show ?case by simp
next
  case (Cons c cs)
  let ?P = "\<lambda>p. \<exists>a m b. p = a @ colon # m @ semicolon # b \<and> (\<forall>c \<in> set m. \<not> lineTerminator c)"
  let ?Q = "\<lambda>cs. \<exists>m b. cs = m @ semicolon # b \<and> (\<forall>c \<in> set m. \<not> lineTerminator c)"
  have step: "?P (c # cs) \<longleftrightarrow> (c = colon \<and> ?Q cs) \<or> ?P cs"
  proof
    assume "?P (c # cs)"
    then obtain a m b where e: "c # cs = a @ colon # m @ semicolon # b"
      and l: "\<forall>c \<in> set m. \<not> lineTerminator c" by blast
    show "(c = colon \<and> ?Q cs) \<or> ?P cs"
    proof (cases a)
      case Nil
      with e l have "c = colon \<and> cs = m @ semicolon # b \<and> (\<forall>c \<in> set m. \<not> lineTerminator c)" by simp
      then show ?thesis by blast
    next
      case (Cons x xs)
      with e l have "cs = xs @ colon # m @ semicolon # b \<and> (\<forall>c \<in> set m. \<not> lineTerminator c)" by simp
      then show ?thesis by blast
    qed
  next
    assume "(c = colon \<and> ?Q cs) \<or> ?P cs"
    then show "?P (c # cs)"
    proof
      assume "c = colon \<and> ?Q cs"
      then obtain m b where "c # cs = [] @ colon # m @ semicolon # b \<and> (\<forall>c \<in> set m. \<not> lineTerminator c)"
        by auto
      then show ?thesis by blast
    next
      assume "?P cs"
      then obtain a m b where "c # cs = (c # a) @ colon # m @ semicolon # b \<and> (\<forall>c \<in> set m. \<not> lineTerminator c)"
        by auto
      then show ?thesis by blast
    qed
  qed
  show ?case
  proof (cases "c = colon")
    case True
    show ?thesis
    proof (cases "lazyUntilSemicolon cs")
      case None
      then have "\<not> ?Q cs" by (simp add: lazyUntilSemicolon_None)
      with True None Cons.IH step show ?thesis by simp
    next
      case (Some m)
      then have "?Q cs" using lazyUntilSemicolon_None [of cs] by simp
      with True Some step show ?thesis by simp
    qed
  next
    case False
    with Cons.IH step show ?thesis by simp
  qed
qed

lemma mimeMatch_no_colon: "colon \<notin> set p \<Longrightarrow> mimeMatch p = None"
  by (induction p) auto

lemma mimeMatch_no_semicolon: "semicolon \<notin> set p \<Longrightarrow> mimeMatch p = None"
  unfolding mimeMatch_None by auto



subsection \<open>Malformed data URLs\<close>

lemma decode_no_comma:
  assumes "comma \<notin> set u"
  shows "dataURLtoFile ev u filename = Inl (Error (js ''Invalid data URL''))"
    and "readAsDataURL ev f = Inr u \<Longrightarrow> fileToPart ev f = Inl (Error (js ''Invalid data URL''))"
  using assms by (simp_all add: dataURLtoFile_def fileToPart_def split_no_separator)

lemma decode_bad_mime:
  assumes "comma \<in> set u"
    and "mimeMatch (takeWhile (\<lambda>c. c \<noteq> comma) u) = None
         \<or> mimeMatch (takeWhile (\<lambda>c. c \<noteq> comma) u) = Some []"
  shows "dataURLtoFile ev u filename = Inl (Error (js ''Could not parse MIME type from data URL''))"
    and "readAsDataURL ev f = Inr u \<Longrightarrow>
         fileToPart ev f = Inl (Error (js ''Could not parse MIME type from data URL''))"
proof -
  have len: "\<not> length (split comma u) < 2"
    using length_split_separator [OF assms(1)] by simp
  show "dataURLtoFile ev u filename = Inl (Error (js ''Could not parse MIME type from data URL''))"
    using assms(2) len by (auto simp: dataURLtoFile_def Let_def split_head)
  show "fileToPart ev f = Inl (Error (js ''Could not parse MIME type from data URL''))"
    if "readAsDataURL ev f = Inr u"
    using assms(2) len that by (auto simp: fileToPart_def Let_def split_head)
qed

lemma finishEdit_failure:
  "(case fst outcome of Inl e \<Rightarrow> Inl e
    | Inr url \<Rightarrow> dataURLtoFile ev url (filePrefix @ numberToString ev (Date_now ev k) @ js ''.png''))
     = Inl err \<Longrightarrow>
   finishEdit ev failure filePrefix k outcome s
     = (s\<lparr> error := Some (failure @ errorMessage err), isLoading := False \<rparr>, snd outcome)"
  by (simp add: finishEdit_def)

text \<open>
  The decode routines on a malformed data URL. A data URL without a comma makes
  \<open>dataURLtoFile\<close> and \<open>fileToPart\<close> throw the error \<open>Invalid data URL\<close>; one with a comma
  whose prefix the regular expression does not match, or matches with an empty type, makes
  them throw \<open>Could not parse MIME type from data URL\<close>. The \<open>try\<close> of an edit handler
  catches either error and reports it in the error state. The expression matches nothing
  exactly when no colon is followed on its line by a semicolon.
\<close>
theorem malformed_data_url:
  "(comma \<notin> set u \<longrightarrow>
      dataURLtoFile ev u filename = Inl (Error (js ''Invalid data URL''))
      \<and> (readAsDataURL ev f = Inr u \<longrightarrow> fileToPart ev f = Inl (Error (js ''Invalid data URL'')))
      \<and> finishEdit ev failure filePrefix k (Inr u, requests) s
          = (s\<lparr> error := Some (failure @ js ''Invalid data URL''), isLoading := False \<rparr>, requests))
   \<and> (comma \<in> set u
        \<and> (mimeMatch (takeWhile (\<lambda>c. c \<noteq> comma) u) = None
             \<or> mimeMatch (takeWhile (\<lambda>c. c \<noteq> comma) u) = Some []) \<longrightarrow>
      dataURLtoFile ev u filename = Inl (Error (js ''Could not parse MIME type from data URL''))
      \<and> (readAsDataURL ev f = Inr u \<longrightarrow>
            fileToPart ev f = Inl (Error (js ''Could not parse MIME type from data URL'')))
      \<and> finishEdit ev failure filePrefix k (Inr u, requests) s
          = (s\<lparr> error := Some (failure @ js ''Could not parse MIME type from data URL''),
                isLoading := False \<rparr>, requests))
   \<and> (mimeMatch p = None \<longleftrightarrow>
        \<not> (\<exists>a m b. p = a @ colon # m @ semicolon # b \<and> (\<forall>c \<in> set m. \<not> lineTerminator c)))"
proof (intro conjI impI)
  assume n: "comma \<notin> set u"
  show "dataURLtoFile ev u filename = Inl (Error (js ''Invalid data URL''))"
    using n by (rule decode_no_comma)
  show "fileToPart ev f = Inl (Error (js ''Invalid data URL''))" if "readAsDataURL ev f = Inr u"
    using n that by (rule decode_no_comma)
  have "dataURLtoFile ev u (filePrefix @ numberToString ev (Date_now ev k) @ js ''.png'')
      = Inl (Error (js ''Invalid data URL''))"
    using n by (rule decode_no_comma)
  then show "finishEdit ev failure filePrefix k (Inr u, requests) s
      = (s\<lparr> error := Some (failure @ js ''Invalid data URL''), isLoading := False \<rparr>, requests)"
    using finishEdit_failure [where outcome = "(Inr u, requests)" and err = "Error (js ''Invalid data URL'')"]
    by (simp add: errorMessage_def)
next
  assume a: "comma \<in> set u
        \<and> (mimeMatch (takeWhile (\<lambda>c. c \<noteq> comma) u) = None
             \<or> mimeMatch (takeWhile (\<lambda>c. c \<noteq> comma) u) = Some [])"
  then have c: "comma \<in> set u"
    and m: "mimeMatch (takeWhile (\<lambda>c. c \<noteq> comma) u) = None
             \<or> mimeMatch (takeWhile (\<lambda>c. c \<noteq> comma) u) = Some []"
    by simp_all
  show "dataURLtoFile ev u filename = Inl (Error (js ''Could not parse MIME type from data URL''))"
    using c m by (rule decode_bad_mime)
  show "fileToPart ev f = Inl (Error (js ''Could not parse MIME type from data URL''))"
    if "readAsDataURL ev f = Inr u"
    using c m that by (rule decode_bad_mime)
  have "dataURLtoFile ev u (filePrefix @ numberToString ev (Date_now ev k) @ js ''.png'')
      = Inl (Error (js ''Could not parse MIME type from data URL''))"
    using c m by (rule decode_bad_mime)
  then show "finishEdit ev failure filePrefix k (Inr u, requests) s
      = (s\<lparr> error := Some (failure @ js ''Could not parse MIME type from data URL''),
            isLoading := False \<rparr>, requests)"
    using finishEdit_failure [where outcome = "(Inr u, requests)"
        and err = "Error (js ''Could not parse MIME type from data URL'')"]
    by (simp add: errorMessage_def)
next
  show "mimeMatch p = None \<longleftrightarrow>
        \<not> (\<exists>a m b. p = a @ colon # m @ semicolon # b \<and> (\<forall>c \<in> set m. \<not> lineTerminator c))"
    by (rule mimeMatch_None)
qed

lemma example_strings:
  "comma \<notin> set (js ''hello'')"
  "comma \<in> set (js ''data:,'')"
  "mimeMatch (takeWhile (\<lambda>c. c \<noteq> comma) (js ''data:,'')) = None"
  "comma \<in> set (js ''data:;base64,QUJD'')"
  "mimeMatch (takeWhile (\<lambda>c. c \<noteq> comma) (js ''data:;base64,QUJD'')) = Some []"
  by (simp_all add: js_def comma_def colon_def semicolon_def lineTerminator_def)

theorem malformed_data_url_witness:
  "dataURLtoFile exampleEnv (js ''hello'') (js ''edited-7.png'') = Inl (Error (js ''Invalid data URL''))
   \<and> fileToPart (exampleEnv\<lparr> readAsDataURL := (\<lambda>f. Inr (js ''hello'')) \<rparr>) (version 1)
       = Inl (Error (js ''Invalid data URL''))
   \<and> dataURLtoFile exampleEnv (js ''data:,'') (js ''edited-7.png'')
       = Inl (Error (js ''Could not parse MIME type from data URL''))
   \<and> dataURLtoFile exampleEnv (js ''data:;base64,QUJD'') (js ''edited-7.png'')
       = Inl (Error (js ''Could not parse MIME type from data URL''))
   \<and> fst (finishEdit exampleEnv (js ''Failed to apply the filter. '') (js ''filtered-'') 0
            (Inr (js ''data:,''), []) (beginEdit readyState))
       = readyState\<lparr> error := Some (js ''Failed to apply the filter. ''
                          @ js ''Could not parse MIME type from data URL''), isLoading := False \<rparr>"
proof -
  have a: "dataURLtoFile exampleEnv (js ''hello'') (js ''edited-7.png'') = Inl (Error (js ''Invalid data URL''))"
    using malformed_data_url [of "js ''hello''" exampleEnv "js ''edited-7.png''"] example_strings
    by blast
  have b: "fileToPart (exampleEnv\<lparr> readAsDataURL := (\<lambda>f. Inr (js ''hello'')) \<rparr>) (version 1)
       = Inl (Error (js ''Invalid data URL''))"
    using malformed_data_url [of "js ''hello''" "exampleEnv\<lparr> readAsDataURL := (\<lambda>f. Inr (js ''hello'')) \<rparr>"
        _ "version 1"] example_strings
    by simp
  have c: "dataURLtoFile exampleEnv (js ''data:,'') (js ''edited-7.png'')
       = Inl (Error (js ''Could not parse MIME type from data URL''))"
    using malformed_data_url [of "js ''data:,''" exampleEnv "js ''edited-7.png''"] example_strings
    by blast
  have d: "dataURLtoFile exampleEnv (js ''data:;base64,QUJD'') (js ''edited-7.png'')
       = Inl (Error (js ''Could not parse MIME type from data URL''))"
    using malformed_data_url [of "js ''data:;base64,QUJD''" exampleEnv "js ''edited-7.png''"] example_strings
    by blast
  have "finishEdit exampleEnv (js ''Failed to apply the filter. '') (js ''filtered-'') 0
            (Inr (js ''data:,''), []) (beginEdit readyState)
       = ((beginEdit readyState)\<lparr> error := Some (js ''Failed to apply the filter. ''
                          @ js ''Could not parse MIME type from data URL''), isLoading := False \<rparr>, [])"
    using malformed_data_url [of "js ''data:,''" exampleEnv _ _ "js ''Failed to apply the filter. ''"
        "js ''filtered-''" 0 "[]" "beginEdit readyState"] example_strings
    by blast
  then have e: "fst (finishEdit exampleEnv (js ''Failed to apply the filter. '') (js ''filtered-'') 0
            (Inr (js ''data:,''), []) (beginEdit readyState))
       = readyState\<lparr> error := Some (js ''Failed to apply the filter. ''
                          @ js ''Could not parse MIME type from data URL''), isLoading := False \<rparr>"
    by (simp add: beginEdit_def)
  show ?thesis using a b c d e by blast
qed



subsection \<open>The interpretation of a response\<close>

lemma find_Some_iff_exists: "(\<exists>y. find P xs = Some y) \<longleftrightarrow> (\<exists>x \<in> set xs. P x)"
  by (induction xs) auto

lemma imagePart_iff:
  "imagePartFromResponse r \<noteq> None \<longleftrightarrow>
     (\<exists>c cs ct ps. candidates r = Some (c # cs) \<and> content c = Some ct \<and> parts ct = Some ps
        \<and> (\<exists>part \<in> set ps. inlineData part \<noteq> None))"
proof -
  have "imagePartFromResponse r \<noteq> None \<longleftrightarrow>
     (\<exists>c cs ct ps. candidates r = Some (c # cs) \<and> content c = Some ct \<and> parts ct = Some ps
        \<and> (\<exists>y. find (\<lambda>part. inlineData part \<noteq> None) ps = Some y))"
    by (auto simp: imagePartFromResponse_def firstCandidate_def split: option.splits list.splits)
  then show ?thesis
    unfolding find_Some_iff_exists .
qed

lemma imagePart_has_inlineData:
  "imagePartFromResponse r = Some part \<Longrightarrow> inlineData part \<noteq> None"
  by (auto simp: imagePartFromResponse_def find_Some_iff split: option.splits)

lemma js_Cons: "js (c # cs) = of_nat (of_char c) # js cs"
  by (simp add: js_def)

lemma messages_distinct:
  "blockedMessage a b \<noteq> stoppedMessage x"
  "blockedMessage a b \<noteq> noImageMessage c t"
  "stoppedMessage x \<noteq> noImageMessage c t"
  by (simp_all add: blockedMessage_def stoppedMessage_def noImageMessage_def js_Cons)

text \<open>
  Claim C2. \<open>handleApiResponse\<close> classifies in this order: a block reason gives the blocked
  error, also when the response holds an image; else an inline image part gives the data URL
  of the first such part; else a finish reason other than \<open>STOP\<close> gives the stopped error;
  else the no-image error, built from the text feedback. An image part is present exactly
  when the parts of the first candidate contain one with inline data, and the three errors
  have different messages.
\<close>
theorem response_priority:
  "(truthy (responseBlockReason r) \<longrightarrow>
      handleApiResponse r c
        = Inl (Error (blockedMessage (the (responseBlockReason r))
                        (blockReasonMessage (the (promptFeedback r))))))
   \<and> (\<not> truthy (responseBlockReason r) \<and> imagePartFromResponse r \<noteq> None \<longrightarrow>
        (\<exists>blob. inlineData (the (imagePartFromResponse r)) = Some blob
           \<and> handleApiResponse r c
               = Inr (js ''data:'' @ interpolate (blob_mimeType blob) @ js '';base64,''
                      @ interpolate (blob_data blob))))
   \<and> (\<not> truthy (responseBlockReason r) \<and> imagePartFromResponse r = None
        \<and> truthy (responseFinishReason r) \<and> the (responseFinishReason r) \<noteq> js ''STOP'' \<longrightarrow>
        handleApiResponse r c = Inl (Error (stoppedMessage (the (responseFinishReason r)))))
   \<and> (\<not> truthy (responseBlockReason r) \<and> imagePartFromResponse r = None
        \<and> \<not> (truthy (responseFinishReason r) \<and> the (responseFinishReason r) \<noteq> js ''STOP'') \<longrightarrow>
        handleApiResponse r c = Inl (Error (noImageMessage c (textFeedback r))))
   \<and> (imagePartFromResponse r \<noteq> None \<longleftrightarrow>
        (\<exists>cd cs ct ps. candidates r = Some (cd # cs) \<and> content cd = Some ct \<and> parts ct = Some ps
           \<and> (\<exists>part \<in> set ps. inlineData part \<noteq> None)))
   \<and> blockedMessage a b \<noteq> stoppedMessage x
   \<and> blockedMessage a b \<noteq> noImageMessage c t
   \<and> stoppedMessage x \<noteq> noImageMessage c t"
proof -
  have p1: "truthy (responseBlockReason r) \<longrightarrow>
      handleApiResponse r c
        = Inl (Error (blockedMessage (the (responseBlockReason r))
                        (blockReasonMessage (the (promptFeedback r)))))"
    by (simp add: handleApiResponse_def)
  have p2: "\<not> truthy (responseBlockReason r) \<and> imagePartFromResponse r \<noteq> None \<longrightarrow>
        (\<exists>blob. inlineData (the (imagePartFromResponse r)) = Some blob
           \<and> handleApiResponse r c
               = Inr (js ''data:'' @ interpolate (blob_mimeType blob) @ js '';base64,''
                      @ interpolate (blob_data blob)))"
  proof
    assume h: "\<not> truthy (responseBlockReason r) \<and> imagePartFromResponse r \<noteq> None"
    then obtain part where pt: "imagePartFromResponse r = Some part" by auto
    then obtain blob where bl: "inlineData part = Some blob"
      using imagePart_has_inlineData by blast
    have "handleApiResponse r c
        = Inr (js ''data:'' @ interpolate (blob_mimeType blob) @ js '';base64,''
               @ interpolate (blob_data blob))"
      using h pt bl by (simp add: handleApiResponse_def)
    with pt bl show "\<exists>blob. inlineData (the (imagePartFromResponse r)) = Some blob
           \<and> handleApiResponse r c
               = Inr (js ''data:'' @ interpolate (blob_mimeType blob) @ js '';base64,''
                      @ interpolate (blob_data blob))"
      by simp
  qed
  have p3: "\<not> truthy (responseBlockReason r) \<and> imagePartFromResponse r = None
        \<and> truthy (responseFinishReason r) \<and> the (responseFinishReason r) \<noteq> js ''STOP'' \<longrightarrow>
        handleApiResponse r c = Inl (Error (stoppedMessage (the (responseFinishReason r))))"
    by (simp add: handleApiResponse_def)
  have p4: "\<not> truthy (responseBlockReason r) \<and> imagePartFromResponse r = None
        \<and> \<not> (truthy (responseFinishReason r) \<and> the (responseFinishReason r) \<noteq> js ''STOP'') \<longrightarrow>
        handleApiResponse r c = Inl (Error (noImageMessage c (textFeedback r)))"
    by (auto simp: handleApiResponse_def)
  show ?thesis
    using p1 p2 p3 p4 imagePart_iff [of r] messages_distinct
    by blast
qed

lemma example_responses:
  "truthy (responseBlockReason blockedResponse)"
  "imagePartFromResponse blockedResponse \<noteq> None"
  "the (responseBlockReason blockedResponse) = js ''SAFETY''"
  "blockReasonMessage (the (promptFeedback blockedResponse)) = None"
  "\<not> truthy (responseBlockReason imageResponse)"
  "imagePartFromResponse imageResponse \<noteq> None"
  "inlineData (the (imagePartFromResponse imageResponse))
     = Some \<lparr> blob_mimeType = Some (js ''image/png''), blob_data = Some (js ''QUJD'') \<rparr>"
  "\<not> truthy (responseBlockReason stoppedResponse)"
  "imagePartFromResponse stoppedResponse = None"
  "truthy (responseFinishReason stoppedResponse)"
  "the (responseFinishReason stoppedResponse) = js ''IMAGE_SAFETY''"
  "the (responseFinishReason stoppedResponse) \<noteq> js ''STOP''"
  "\<not> truthy (responseBlockReason textResponse)"
  "imagePartFromResponse textResponse = None"
  "the (responseFinishReason textResponse) = js ''STOP''"
  "textFeedback textResponse = js '' Sorry ''"
  by (simp_all add: blockedResponse_def imageResponse_def stoppedResponse_def textResponse_def
      truthy_def responseBlockReason_def responseFinishReason_def imagePartFromResponse_def
      firstCandidate_def textFeedback_def js_Cons)

theorem response_priority_witness:
  \<open>handleApiResponse blockedResponse (js ''edit'')
     = Inl (Error (js ''Request was blocked by safety filters (Prompt). Reason: SAFETY. Try using a less specific prompt or a broader focus.''))
   \<and> handleApiResponse imageResponse (js ''edit'') = Inr (js ''data:image/png;base64,QUJD'')
   \<and> handleApiResponse stoppedResponse (js ''edit'') = Inl (Error (stoppedMessage (js ''IMAGE_SAFETY'')))
   \<and> handleApiResponse textResponse (js ''edit'')
       = Inl (Error (js ''No image output detected for edit. AI Feedback: "Sorry"''))\<close>
proof -
  have a: "handleApiResponse blockedResponse (js ''edit'')
     = Inl (Error (js ''Request was blocked by safety filters (Prompt). Reason: SAFETY. Try using a less specific prompt or a broader focus.''))"
    using response_priority [of blockedResponse "js ''edit''"] example_responses
    by (simp add: blockedMessage_def truthy_def js_def)
  have b: "handleApiResponse imageResponse (js ''edit'') = Inr (js ''data:image/png;base64,QUJD'')"
    using response_priority [of imageResponse "js ''edit''"] example_responses
    by (simp add: interpolate_def js_def)
  have c: "handleApiResponse stoppedResponse (js ''edit'') = Inl (Error (stoppedMessage (js ''IMAGE_SAFETY'')))"
    using response_priority [of stoppedResponse "js ''edit''"] example_responses
    by simp
  have d: \<open>handleApiResponse textResponse (js ''edit'')
       = Inl (Error (js ''No image output detected for edit. AI Feedback: "Sorry"''))\<close>
    using response_priority [of textResponse "js ''edit''"] example_responses
    by (simp add: noImageMessage_def trim_def whiteSpace_def lineTerminator_def js_def)
  show ?thesis using a b c d by blast
qed



subsection \<open>The outcome of an edit handler\<close>


lemma finishEdit_undecodable_state:
  "fst outcome = Inr url \<Longrightarrow>
   dataURLtoFile ev url (filePrefix @ numberToString ev (Date_now ev k) @ js ''.png'') = Inl err \<Longrightarrow>
   finishEdit ev failure filePrefix k outcome (beginEdit s)
     = (s\<lparr> error := Some (failure @ errorMessage err), isLoading := False \<rparr>, snd outcome)"
  by (simp add: finishEdit_def beginEdit_def)


lemma error_addImageToHistory [simp]: "error (addImageToHistory f s) = error s"
  by (simp add: addImageToHistory_def clearInteractionPoints_def Let_def)

lemma error_beginEdit [simp]: "error (beginEdit s) = None"
  by (simp add: beginEdit_def)















lemma snd_finishEdit [simp]: "snd (finishEdit ev failure filePrefix k out s) = snd out"
  by (simp add: finishEdit_def split: sum.split)

lemma history_failed [simp]:
  "history (s\<lparr> error := m, isLoading := l \<rparr>) = history s"
  "historyIndex (s\<lparr> error := m, isLoading := l \<rparr>) = historyIndex s"
  by simp_all








subsection \<open>A failed edit\<close>




lemma example_readyState:
  "currentImage readyState = Some (version 1)"
  "history readyState = [version 1]"
  "historyIndex readyState = 0"
  "prompt readyState = js ''brighten''"
  "editHotspot readyState = Some \<lparr> pt_x = 30, pt_y = 40 \<rparr>"
  "error readyState = None"
  "isLoading readyState = False"
  "completedEnhanceCrop readyState = None"
  by (simp_all add: readyState_def stateAt_def initialState_def currentImage_def)

lemma trim_brighten: "trim (js ''brighten'') \<noteq> []"
  by (simp add: trim_def js_def whiteSpace_def lineTerminator_def)









subsection \<open>The checks before a request\<close>

lemma no_image_rejected:
  assumes "currentImage s = None"
  shows "handleGenerate ev s = (s\<lparr> error := Some (js ''No image loaded to edit.'') \<rparr>, [])"
    and "handleApplyFilter ev p s = (s\<lparr> error := Some (js ''No image loaded to apply a filter to.'') \<rparr>, [])"
    and "handleApplyAdjustment ev p s
           = (s\<lparr> error := Some (js ''No image loaded to apply an adjustment to.'') \<rparr>, [])"
    and "handleApplyReframe ev p s = (s\<lparr> error := Some (js ''No image loaded to reframe.'') \<rparr>, [])"
    and "handleApplyZoom ev p s = (s\<lparr> error := Some (js ''No image loaded to apply zoom to.'') \<rparr>, [])"
    and "handleApplyEnhancement ev p s
           = (s\<lparr> error := Some (js ''No image loaded to apply an enhancement to.'') \<rparr>, [])"
    and "handleApplyExpansion ev r p s = (s\<lparr> error := Some (js ''No image loaded to expand.'') \<rparr>, [])"
    and "handleApplyHarmonize ev p s = (s\<lparr> error := Some (js ''No image loaded to harmonize.'') \<rparr>, [])"
    and "handleApplyCombine ev f p s = (s\<lparr> error := Some (js ''No destination image loaded.'') \<rparr>, [])"
  using assms
  by (simp_all add: handleGenerate_def handleApplyFilter_def handleApplyAdjustment_def
      handleApplyReframe_def handleApplyZoom_def handleApplyEnhancement_def
      handleApplyExpansion_def handleApplyHarmonize_def handleApplyCombine_def)

lemma no_request_without_image:
  "currentImage s = None \<Longrightarrow> snd (runEdit ev e s) = []"
  by (cases e) (simp_all add: no_image_rejected)

lemma missing_input_rejected:
  assumes "currentImage s \<noteq> None"
  shows "trim (prompt s) = [] \<Longrightarrow>
           handleGenerate ev s
             = (s\<lparr> error := Some (js ''Please enter a description for your edit.'') \<rparr>, [])"
    and "trim (prompt s) \<noteq> [] \<Longrightarrow> editHotspot s = None \<Longrightarrow>
           handleGenerate ev s
             = (s\<lparr> error := Some (js ''Please click on the image to select an area to edit.'') \<rparr>, [])"
    and "editHotspot s = None \<Longrightarrow>
           handleApplyCombine ev f p s
             = (s\<lparr> error := Some (js ''Please select a location on the destination image.'') \<rparr>, [])"
    and "foregroundHotspot s = None \<or> backgroundHotspot s = None \<Longrightarrow>
           handleApplyHarmonize ev p s
             = (s\<lparr> error := Some (js ''Please select a foreground object and a background point.'') \<rparr>, [])"
    and "completedEnhanceCrop s = None \<or> crop_width (the (completedEnhanceCrop s)) = 0 \<Longrightarrow>
           handleApplyEnhancement ev p s
             = (s\<lparr> error := Some (js ''Please select an area on the image to enhance.'') \<rparr>, [])"
  using assms
  by (auto simp: handleGenerate_def handleApplyCombine_def handleApplyHarmonize_def
      handleApplyEnhancement_def)

lemma CombinePanel_no_source:
  "CombinePanel_onClick ev None p s = (s, [])"
  "CombinePanel_button ev None p s = (s, [])"
  by (simp_all add: CombinePanel_onClick_def CombinePanel_button_def CombinePanel_canGenerate_def)

text \<open>
  Claim C7, as the code has it. Without a current version every edit handler sets its
  no-image error and sends no request. With one, the handlers set a missing-input error and
  send no request for these inputs: retouch, a blank instruction, then a missing point;
  combine, a missing point; harmonize, a missing foreground or background point; enhance,
  an absent or zero-width region. A missing second image is no error: \<open>handleApplyCombine\<close>
  takes the image as an argument, and the panel does not call it without one.
\<close>
theorem edit_preconditions:
  "(currentImage s = None \<longrightarrow>
      handleGenerate ev s = (s\<lparr> error := Some (js ''No image loaded to edit.'') \<rparr>, [])
      \<and> handleApplyFilter ev p s
          = (s\<lparr> error := Some (js ''No image loaded to apply a filter to.'') \<rparr>, [])
      \<and> handleApplyAdjustment ev p s
          = (s\<lparr> error := Some (js ''No image loaded to apply an adjustment to.'') \<rparr>, [])
      \<and> handleApplyReframe ev p s = (s\<lparr> error := Some (js ''No image loaded to reframe.'') \<rparr>, [])
      \<and> handleApplyZoom ev p s = (s\<lparr> error := Some (js ''No image loaded to apply zoom to.'') \<rparr>, [])
      \<and> handleApplyEnhancement ev p s
          = (s\<lparr> error := Some (js ''No image loaded to apply an enhancement to.'') \<rparr>, [])
      \<and> handleApplyExpansion ev r p s = (s\<lparr> error := Some (js ''No image loaded to expand.'') \<rparr>, [])
      \<and> handleApplyHarmonize ev p s = (s\<lparr> error := Some (js ''No image loaded to harmonize.'') \<rparr>, [])
      \<and> handleApplyCombine ev f p s = (s\<lparr> error := Some (js ''No destination image loaded.'') \<rparr>, [])
      \<and> snd (runEdit ev e s) = [])
   \<and> (currentImage s \<noteq> None \<and> trim (prompt s) = [] \<longrightarrow>
        handleGenerate ev s
          = (s\<lparr> error := Some (js ''Please enter a description for your edit.'') \<rparr>, []))
   \<and> (currentImage s \<noteq> None \<and> trim (prompt s) \<noteq> [] \<and> editHotspot s = None \<longrightarrow>
        handleGenerate ev s
          = (s\<lparr> error := Some (js ''Please click on the image to select an area to edit.'') \<rparr>, []))
   \<and> (currentImage s \<noteq> None \<and> editHotspot s = None \<longrightarrow>
        handleApplyCombine ev f p s
          = (s\<lparr> error := Some (js ''Please select a location on the destination image.'') \<rparr>, []))
   \<and> (currentImage s \<noteq> None \<and> (foregroundHotspot s = None \<or> backgroundHotspot s = None) \<longrightarrow>
        handleApplyHarmonize ev p s
          = (s\<lparr> error := Some (js ''Please select a foreground object and a background point.'') \<rparr>, []))
   \<and> (currentImage s \<noteq> None
        \<and> (completedEnhanceCrop s = None \<or> crop_width (the (completedEnhanceCrop s)) = 0) \<longrightarrow>
        handleApplyEnhancement ev p s
          = (s\<lparr> error := Some (js ''Please select an area on the image to enhance.'') \<rparr>, []))
   \<and> CombinePanel_onClick ev None p s = (s, [])
   \<and> CombinePanel_button ev None p s = (s, [])"
proof (intro conjI impI)
  assume n: "currentImage s = None"
  show "handleGenerate ev s = (s\<lparr> error := Some (js ''No image loaded to edit.'') \<rparr>, [])"
    "handleApplyFilter ev p s
          = (s\<lparr> error := Some (js ''No image loaded to apply a filter to.'') \<rparr>, [])"
    "handleApplyAdjustment ev p s
          = (s\<lparr> error := Some (js ''No image loaded to apply an adjustment to.'') \<rparr>, [])"
    "handleApplyReframe ev p s = (s\<lparr> error := Some (js ''No image loaded to reframe.'') \<rparr>, [])"
    "handleApplyZoom ev p s = (s\<lparr> error := Some (js ''No image loaded to apply zoom to.'') \<rparr>, [])"
    "handleApplyEnhancement ev p s
          = (s\<lparr> error := Some (js ''No image loaded to apply an enhancement to.'') \<rparr>, [])"
    "handleApplyExpansion ev r p s = (s\<lparr> error := Some (js ''No image loaded to expand.'') \<rparr>, [])"
    "handleApplyHarmonize ev p s = (s\<lparr> error := Some (js ''No image loaded to harmonize.'') \<rparr>, [])"
    "handleApplyCombine ev f p s = (s\<lparr> error := Some (js ''No destination image loaded.'') \<rparr>, [])"
    using n by (rule no_image_rejected)+
  show "snd (runEdit ev e s) = []"
    using n by (rule no_request_without_image)
next
  assume "currentImage s \<noteq> None \<and> trim (prompt s) = []"
  then show "handleGenerate ev s
          = (s\<lparr> error := Some (js ''Please enter a description for your edit.'') \<rparr>, [])"
    by (simp add: missing_input_rejected(1))
next
  assume "currentImage s \<noteq> None \<and> trim (prompt s) \<noteq> [] \<and> editHotspot s = None"
  then show "handleGenerate ev s
          = (s\<lparr> error := Some (js ''Please click on the image to select an area to edit.'') \<rparr>, [])"
    by (simp add: missing_input_rejected(2))
next
  assume "currentImage s \<noteq> None \<and> editHotspot s = None"
  then show "handleApplyCombine ev f p s
          = (s\<lparr> error := Some (js ''Please select a location on the destination image.'') \<rparr>, [])"
    by (simp add: missing_input_rejected(3))
next
  assume "currentImage s \<noteq> None \<and> (foregroundHotspot s = None \<or> backgroundHotspot s = None)"
  then have "currentImage s \<noteq> None" "foregroundHotspot s = None \<or> backgroundHotspot s = None"
    by simp_all
  then show "handleApplyHarmonize ev p s
          = (s\<lparr> error := Some (js ''Please select a foreground object and a background point.'') \<rparr>, [])"
    by (rule missing_input_rejected(4))
next
  assume "currentImage s \<noteq> None
        \<and> (completedEnhanceCrop s = None \<or> crop_width (the (completedEnhanceCrop s)) = 0)"
  then have "currentImage s \<noteq> None"
    "completedEnhanceCrop s = None \<or> crop_width (the (completedEnhanceCrop s)) = 0"
    by simp_all
  then show "handleApplyEnhancement ev p s
          = (s\<lparr> error := Some (js ''Please select an area on the image to enhance.'') \<rparr>, [])"
    by (rule missing_input_rejected(5))
next
  show "CombinePanel_onClick ev None p s = (s, [])" "CombinePanel_button ev None p s = (s, [])"
    by (rule CombinePanel_no_source)+
qed

lemma trim_blank: "trim (js ''  '') = []"
  by (simp add: trim_def js_def whiteSpace_def)

text \<open>
  The claim C7 as stated fails for the second source image: with an image loaded, a point
  selected and no second image, the combine panel reports no error and leaves the state as
  it is.
\<close>
theorem edit_preconditions_counterexample:
  "currentImage readyState = Some (version 1)
   \<and> error readyState = None
   \<and> fst (CombinePanel_button exampleEnv None (js ''add the dog'') readyState) = readyState
   \<and> snd (CombinePanel_button exampleEnv None (js ''add the dog'') readyState) = []
   \<and> error (fst (CombinePanel_button exampleEnv None (js ''add the dog'') readyState)) = None"
  by (simp add: example_readyState CombinePanel_no_source)

theorem edit_preconditions_witness:
  "handleGenerate exampleEnv initialState
     = (initialState\<lparr> error := Some (js ''No image loaded to edit.'') \<rparr>, [])
   \<and> snd (runEdit exampleEnv (Expansion 1 (js ''sky'')) initialState) = []
   \<and> handleGenerate exampleEnv (readyState\<lparr> prompt := js ''  '' \<rparr>)
       = (readyState\<lparr> prompt := js ''  '',
            error := Some (js ''Please enter a description for your edit.'') \<rparr>, [])
   \<and> handleGenerate exampleEnv (readyState\<lparr> editHotspot := None \<rparr>)
       = (readyState\<lparr> editHotspot := None,
            error := Some (js ''Please click on the image to select an area to edit.'') \<rparr>, [])
   \<and> handleApplyCombine exampleEnv (version 2) (js ''add the dog'') (readyState\<lparr> editHotspot := None \<rparr>)
       = (readyState\<lparr> editHotspot := None,
            error := Some (js ''Please select a location on the destination image.'') \<rparr>, [])
   \<and> handleApplyHarmonize exampleEnv (js ''blend'') readyState
       = (readyState\<lparr> error := Some (js ''Please select a foreground object and a background point.'') \<rparr>, [])
   \<and> handleApplyEnhancement exampleEnv (js ''sharpen'') readyState
       = (readyState\<lparr> error := Some (js ''Please select an area on the image to enhance.'') \<rparr>, [])"
proof -
  have i: "currentImage initialState = None"
    by (simp add: currentImage_def initialState_def)
  have c: "currentImage (readyState\<lparr> prompt := js ''  '' \<rparr>) \<noteq> None"
    "currentImage (readyState\<lparr> editHotspot := None \<rparr>) \<noteq> None"
    "currentImage readyState \<noteq> None"
    by (simp_all add: currentImage_def readyState_def stateAt_def initialState_def)
  have f: "foregroundHotspot readyState = None"
    by (simp add: readyState_def stateAt_def initialState_def)
  have a1: "handleGenerate exampleEnv initialState
     = (initialState\<lparr> error := Some (js ''No image loaded to edit.'') \<rparr>, [])"
    "snd (runEdit exampleEnv (Expansion 1 (js ''sky'')) initialState) = []"
    using edit_preconditions [of initialState exampleEnv _ _ _ "Expansion 1 (js ''sky'')"] i
    by simp_all
  have a2: "handleGenerate exampleEnv (readyState\<lparr> prompt := js ''  '' \<rparr>)
       = (readyState\<lparr> prompt := js ''  '',
            error := Some (js ''Please enter a description for your edit.'') \<rparr>, [])"
    using edit_preconditions [of "readyState\<lparr> prompt := js ''  '' \<rparr>" exampleEnv] c(1)
    by (simp add: trim_blank)
  have a3: "handleGenerate exampleEnv (readyState\<lparr> editHotspot := None \<rparr>)
       = (readyState\<lparr> editHotspot := None,
            error := Some (js ''Please click on the image to select an area to edit.'') \<rparr>, [])"
    using edit_preconditions [of "readyState\<lparr> editHotspot := None \<rparr>" exampleEnv] c(2)
    by (simp add: example_readyState trim_brighten)
  have a4: "handleApplyCombine exampleEnv (version 2) (js ''add the dog'') (readyState\<lparr> editHotspot := None \<rparr>)
       = (readyState\<lparr> editHotspot := None,
            error := Some (js ''Please select a location on the destination image.'') \<rparr>, [])"
    using edit_preconditions [of "readyState\<lparr> editHotspot := None \<rparr>" exampleEnv "js ''add the dog''" _
        "version 2"] c(2)
    by simp
  have a5: "handleApplyHarmonize exampleEnv (js ''blend'') readyState
       = (readyState\<lparr> error := Some (js ''Please select a foreground object and a background point.'') \<rparr>, [])"
    using edit_preconditions [of readyState exampleEnv "js ''blend''"] c(3) f
    by simp
  have a6: "handleApplyEnhancement exampleEnv (js ''sharpen'') readyState
       = (readyState\<lparr> error := Some (js ''Please select an area on the image to enhance.'') \<rparr>, [])"
    using edit_preconditions [of readyState exampleEnv "js ''sharpen''"] c(3)
    by (simp add: example_readyState)
  show ?thesis using a1 a2 a3 a4 a5 a6 by simp
qed

text \<open>
  Claim C10. When the completed enhance crop is absent or has width 0,
  \<open>handleApplyEnhancement\<close> sends no request, sets an error and leaves the history alone. In
  a state with a current version, the only one in which the enhance panel is shown, the
  error is the missing-area error, the same for a zero-width rectangle as for no selection;
  without a current version the check for the image comes first and sets its error.
\<close>
theorem degenerate_selection_rejected:
  "(completedEnhanceCrop s = None \<or> crop_width (the (completedEnhanceCrop s)) = 0 \<longrightarrow>
      snd (handleApplyEnhancement ev p s) = []
      \<and> error (fst (handleApplyEnhancement ev p s)) \<noteq> None
      \<and> history (fst (handleApplyEnhancement ev p s)) = history s
      \<and> historyIndex (fst (handleApplyEnhancement ev p s)) = historyIndex s
      \<and> (currentImage s \<noteq> None \<longrightarrow>
           handleApplyEnhancement ev p s
             = (s\<lparr> error := Some (js ''Please select an area on the image to enhance.'') \<rparr>, []))
      \<and> (currentImage s = None \<longrightarrow>
           handleApplyEnhancement ev p s
             = (s\<lparr> error := Some (js ''No image loaded to apply an enhancement to.'') \<rparr>, [])))"
proof
  assume d: "completedEnhanceCrop s = None \<or> crop_width (the (completedEnhanceCrop s)) = 0"
  show "snd (handleApplyEnhancement ev p s) = []
      \<and> error (fst (handleApplyEnhancement ev p s)) \<noteq> None
      \<and> history (fst (handleApplyEnhancement ev p s)) = history s
      \<and> historyIndex (fst (handleApplyEnhancement ev p s)) = historyIndex s
      \<and> (currentImage s \<noteq> None \<longrightarrow>
           handleApplyEnhancement ev p s
             = (s\<lparr> error := Some (js ''Please select an area on the image to enhance.'') \<rparr>, []))
      \<and> (currentImage s = None \<longrightarrow>
           handleApplyEnhancement ev p s
             = (s\<lparr> error := Some (js ''No image loaded to apply an enhancement to.'') \<rparr>, []))"
  proof (cases "currentImage s = None")
    case True
    then show ?thesis by (simp add: no_image_rejected)
  next
    case False
    have "handleApplyEnhancement ev p s
        = (s\<lparr> error := Some (js ''Please select an area on the image to enhance.'') \<rparr>, [])"
      using False d by (rule missing_input_rejected)
    then show ?thesis using False by auto
  qed
qed

theorem degenerate_selection_rejected_witness:
  "handleApplyEnhancement exampleEnv (js ''sharpen'')
      (readyState\<lparr> completedEnhanceCrop :=
         Some \<lparr> crop_unit = Px, crop_x = 10, crop_y = 20, crop_width = 0, crop_height = 25 \<rparr> \<rparr>)
     = (readyState\<lparr> completedEnhanceCrop :=
          Some \<lparr> crop_unit = Px, crop_x = 10, crop_y = 20, crop_width = 0, crop_height = 25 \<rparr>,
          error := Some (js ''Please select an area on the image to enhance.'') \<rparr>, [])
   \<and> handleApplyEnhancement exampleEnv (js ''sharpen'') readyState
       = (readyState\<lparr> error := Some (js ''Please select an area on the image to enhance.'') \<rparr>, [])"
proof -
  let ?c = "\<lparr> crop_unit = Px, crop_x = 10, crop_y = 20, crop_width = 0, crop_height = 25 \<rparr>"
  have c: "currentImage (readyState\<lparr> completedEnhanceCrop := Some ?c \<rparr>) \<noteq> None"
    "currentImage readyState \<noteq> None"
    by (simp_all add: currentImage_def readyState_def stateAt_def initialState_def)
  have a: "handleApplyEnhancement exampleEnv (js ''sharpen'') (readyState\<lparr> completedEnhanceCrop := Some ?c \<rparr>)
     = (readyState\<lparr> completedEnhanceCrop := Some ?c,
          error := Some (js ''Please select an area on the image to enhance.'') \<rparr>, [])"
    using degenerate_selection_rejected [of "readyState\<lparr> completedEnhanceCrop := Some ?c \<rparr>"
        exampleEnv "js ''sharpen''"] c(1)
    by simp
  have b: "handleApplyEnhancement exampleEnv (js ''sharpen'') readyState
       = (readyState\<lparr> error := Some (js ''Please select an area on the image to enhance.'') \<rparr>, [])"
    using degenerate_selection_rejected [of readyState exampleEnv "js ''sharpen''"] c(2)
    by (simp add: example_readyState)
  show ?thesis using a b by simp
qed



subsection \<open>A crop of no size\<close>

lemma crop_of_no_size:
  assumes c: "completedCrop s = Some c" and i: "imgRef ev \<noteq> None" and x: "cropContext2d ev"
    and z: "canvasDimension 300 (fl ev (crop_width c
                * (if devicePixelRatio ev = 0 then 1 else devicePixelRatio ev))) = 0
            \<or> canvasDimension 150 (fl ev (crop_height c
                * (if devicePixelRatio ev = 0 then 1 else devicePixelRatio ev))) = 0"
  shows "handleApplyCrop ev s = Inl (Error (js ''Could not parse MIME type from data URL''))"
proof -
  have m: "comma \<in> set (js ''data:,'')"
    "mimeMatch (takeWhile (\<lambda>c. c \<noteq> comma) (js ''data:,'')) = None
     \<or> mimeMatch (takeWhile (\<lambda>c. c \<noteq> comma) (js ''data:,'')) = Some []"
    using example_strings by simp_all
  have d: "dataURLtoFile ev (js ''data:,'') filename
      = Inl (Error (js ''Could not parse MIME type from data URL''))" for filename
    using m by (rule decode_bad_mime)
  from z have u: "canvasDataURL ev
      (canvasDimension 300 (fl ev (crop_width c
          * (if devicePixelRatio ev = 0 then 1 else devicePixelRatio ev))))
      (canvasDimension 150 (fl ev (crop_height c
          * (if devicePixelRatio ev = 0 then 1 else devicePixelRatio ev)))) drawn
      = js ''data:,''" for drawn
    by (auto simp add: canvasDataURL_def)
  show ?thesis
    using c i x by (simp add: handleApplyCrop_def Let_def u d)
qed

text \<open>
  Claim C8 fails in \<open>handleApplyCrop\<close>. A completed crop of no width and no height, which
  the crop panel accepts, gives a canvas without pixels, whose data URL is \<open>data:,\<close>;
  \<open>dataURLtoFile\<close> throws \<open>Could not parse MIME type from data URL\<close> on it, and since
  \<open>handleApplyCrop\<close> calls it outside any \<open>try\<close> the error leaves the handler and no error
  state is set. The other handlers do what this one misses: \<open>handleApplyEnhancement\<close>
  rejects the same rectangle, and the \<open>catch\<close> of an edit handler reports the same data URL
  in the error state.
\<close>
theorem crop_error_escapes:
  "completedCrop (readyState\<lparr> completedCrop := Some emptyCrop \<rparr>) = Some emptyCrop
   \<and> crop_width emptyCrop = 0
   \<and> canvasDataURL exampleEnv 0 0 [20, 40, 0, 0, 0, 0, 0, 0] = js ''data:,''
   \<and> dataURLtoFile exampleEnv (js ''data:,'') (js ''cropped-'' @ js ''7'' @ js ''.png'')
       = Inl (Error (js ''Could not parse MIME type from data URL''))
   \<and> handleApplyCrop exampleEnv (readyState\<lparr> completedCrop := Some emptyCrop \<rparr>)
       = Inl (Error (js ''Could not parse MIME type from data URL''))
   \<and> handleApplyEnhancement exampleEnv (js ''sharpen'')
         (readyState\<lparr> completedEnhanceCrop := Some emptyCrop \<rparr>)
       = (readyState\<lparr> completedEnhanceCrop := Some emptyCrop,
            error := Some (js ''Please select an area on the image to enhance.'') \<rparr>, [])
   \<and> fst (finishEdit exampleEnv (js ''Failed to apply the filter. '') (js ''filtered-'') 0
            (Inr (js ''data:,''), []) (beginEdit readyState))
       = readyState\<lparr> error := Some (js ''Failed to apply the filter. ''
                          @ js ''Could not parse MIME type from data URL''), isLoading := False \<rparr>"
proof -
  have m: "comma \<in> set (js ''data:,'')"
    "mimeMatch (takeWhile (\<lambda>c. c \<noteq> comma) (js ''data:,'')) = None
     \<or> mimeMatch (takeWhile (\<lambda>c. c \<noteq> comma) (js ''data:,'')) = Some []"
    using example_strings by simp_all
  have d: "dataURLtoFile exampleEnv (js ''data:,'') filename
      = Inl (Error (js ''Could not parse MIME type from data URL''))" for filename
    using m by (rule decode_bad_mime)
  have e: "imgRef exampleEnv \<noteq> None" "cropContext2d exampleEnv" "devicePixelRatio exampleEnv = 2"
    "fl exampleEnv = (\<lambda>v. v)"
    by (simp_all add: exampleEnv_def)
  have z: "canvasDimension 300 0 = 0"
    by (simp add: canvasDimension_def)
  have a: "handleApplyCrop exampleEnv (readyState\<lparr> completedCrop := Some emptyCrop \<rparr>)
       = Inl (Error (js ''Could not parse MIME type from data URL''))"
    by (rule crop_of_no_size [where c = emptyCrop]) (simp_all add: e emptyCrop_def z)
  have "currentImage (readyState\<lparr> completedEnhanceCrop := Some emptyCrop \<rparr>) \<noteq> None"
    by (simp add: currentImage_def readyState_def stateAt_def initialState_def)
  then have b: "handleApplyEnhancement exampleEnv (js ''sharpen'')
         (readyState\<lparr> completedEnhanceCrop := Some emptyCrop \<rparr>)
       = (readyState\<lparr> completedEnhanceCrop := Some emptyCrop,
            error := Some (js ''Please select an area on the image to enhance.'') \<rparr>, [])"
    using missing_input_rejected(5) [of "readyState\<lparr> completedEnhanceCrop := Some emptyCrop \<rparr>"
        exampleEnv "js ''sharpen''"]
    by (simp add: emptyCrop_def)
  have "fst (Inr (js ''data:,'') :: jsstring result, [] :: Request list) = Inr (js ''data:,'')"
    by simp
  from finishEdit_undecodable_state [OF this d, of "js ''Failed to apply the filter. ''"
      "js ''filtered-''" 0 readyState]
  have f: "fst (finishEdit exampleEnv (js ''Failed to apply the filter. '') (js ''filtered-'') 0
            (Inr (js ''data:,''), []) (beginEdit readyState))
       = readyState\<lparr> error := Some (js ''Failed to apply the filter. ''
                          @ js ''Could not parse MIME type from data URL''), isLoading := False \<rparr>"
    by (simp add: errorMessage_def)
  show ?thesis
    using a b f d by (simp add: canvasDataURL_def emptyCrop_def)
qed



subsection \<open>Clicks in the integrate mode\<close>

lemma activeTab_handleImageClick [simp]: "activeTab (handleImageClick ev e s) = activeTab s"
  by (simp add: handleImageClick_def)

lemma activeTab_clicks [simp]: "activeTab (clicks ev es s) = activeTab s"
  unfolding clicks_def by (induction es arbitrary: s) simp_all

lemma clicks_snoc: "clicks ev (es @ [e]) s = handleImageClick ev e (clicks ev es s)"
  by (simp add: clicks_def)

lemma integrate_click_foreground:
  "activeTab s = Tab_integrate \<Longrightarrow>
   foregroundHotspot s = None \<or> (foregroundHotspot s \<noteq> None \<and> backgroundHotspot s \<noteq> None) \<Longrightarrow>
   foregroundHotspot (handleImageClick ev e s) = Some (originalPoint ev e)
   \<and> backgroundHotspot (handleImageClick ev e s) = None"
  by (auto simp: handleImageClick_def)

lemma integrate_click_background:
  "activeTab s = Tab_integrate \<Longrightarrow> foregroundHotspot s \<noteq> None \<Longrightarrow> backgroundHotspot s = None \<Longrightarrow>
   backgroundHotspot (handleImageClick ev e s) = Some (originalPoint ev e)
   \<and> foregroundHotspot (handleImageClick ev e s) = foregroundHotspot s"
  by (auto simp: handleImageClick_def)

lemma integrate_click_ok:
  "activeTab s = Tab_integrate \<Longrightarrow> hotspots_ok (handleImageClick ev e s)"
  by (auto simp: handleImageClick_def hotspots_ok_def)

lemma integrate_click_background_needs_foreground:
  "activeTab s = Tab_integrate \<Longrightarrow> backgroundHotspot (handleImageClick ev e s) \<noteq> None \<Longrightarrow>
   foregroundHotspot s \<noteq> None"
  by (auto simp: handleImageClick_def split: if_splits)

lemma hotspots_ok_handleImageClick:
  "hotspots_ok s \<Longrightarrow> hotspots_ok (handleImageClick ev e s)"
  by (auto simp: handleImageClick_def hotspots_ok_def)

lemma hotspots_ok_clicks: "hotspots_ok s \<Longrightarrow> hotspots_ok (clicks ev es s)"
  unfolding clicks_def
  by (induction es arbitrary: s) (simp_all add: hotspots_ok_handleImageClick)

lemma integrate_clicks_ok:
  "activeTab s = Tab_integrate \<Longrightarrow> es \<noteq> [] \<Longrightarrow> hotspots_ok (clicks ev es s)"
proof (induction es rule: rev_induct)
  case Nil
  then show ?case by simp
next
  case (snoc e es)
  then show ?case by (simp add: clicks_snoc integrate_click_ok)
qed

text \<open>
  Claim C9. In the integrate mode a click with no foreground point, or with both points,
  makes the clicked point the foreground and clears the background; a click with a
  foreground and no background makes it the background. So a background is set only by a
  click that found a foreground, \<open>hotspots_ok\<close> holds after every click and after every
  sequence of clicks in that mode, and every click, tab switch and clearing preserves it.
\<close>
theorem integrate_clicks:
  "(activeTab s = Tab_integrate
      \<and> (foregroundHotspot s = None \<or> (foregroundHotspot s \<noteq> None \<and> backgroundHotspot s \<noteq> None)) \<longrightarrow>
      foregroundHotspot (handleImageClick ev e s) = Some (originalPoint ev e)
      \<and> backgroundHotspot (handleImageClick ev e s) = None)
   \<and> (activeTab s = Tab_integrate \<and> foregroundHotspot s \<noteq> None \<and> backgroundHotspot s = None \<longrightarrow>
        backgroundHotspot (handleImageClick ev e s) = Some (originalPoint ev e)
        \<and> foregroundHotspot (handleImageClick ev e s) = foregroundHotspot s)
   \<and> (activeTab s = Tab_integrate \<and> backgroundHotspot (handleImageClick ev e s) \<noteq> None \<longrightarrow>
        foregroundHotspot s \<noteq> None)
   \<and> (activeTab s = Tab_integrate \<longrightarrow> hotspots_ok (handleImageClick ev e s))
   \<and> (activeTab s = Tab_integrate \<and> es \<noteq> [] \<longrightarrow> hotspots_ok (clicks ev es s))
   \<and> (hotspots_ok s \<longrightarrow> (\<forall>n. hotspots_ok (clicks ev (take n es) s)))
   \<and> hotspots_ok initialState
   \<and> hotspots_ok (handleTabSwitch tab s)
   \<and> hotspots_ok (clearInteractionPoints s)"
proof -
  have "hotspots_ok initialState"
    by (simp add: hotspots_ok_def initialState_def)
  moreover have "hotspots_ok (handleTabSwitch tab s)" "hotspots_ok (clearInteractionPoints s)"
    by (simp_all add: hotspots_ok_def handleTabSwitch_def clearInteractionPoints_def)
  ultimately show ?thesis
    using integrate_click_foreground [of s ev e] integrate_click_background [of s ev e]
      integrate_click_background_needs_foreground [of s ev e] integrate_click_ok [of s ev e]
      integrate_clicks_ok [of s es ev] hotspots_ok_clicks [of s ev]
    by blast
qed

lemma example_points:
  "originalPoint exampleEnv (clickAt 110 70) = \<lparr> pt_x = 200, pt_y = 100 \<rparr>"
  "originalPoint exampleEnv (clickAt 510 270) = \<lparr> pt_x = 1000, pt_y = 500 \<rparr>"
  "originalPoint exampleEnv (clickAt 11 21) = \<lparr> pt_x = 2, pt_y = 2 \<rparr>"
  by (simp_all add: originalPoint_def clickAt_def exampleEnv_def Math_round_def Let_def)

theorem integrate_clicks_witness:
  "foregroundHotspot (clicks exampleEnv [clickAt 110 70] (handleTabSwitch Tab_integrate readyState))
     = Some \<lparr> pt_x = 200, pt_y = 100 \<rparr>
   \<and> backgroundHotspot (clicks exampleEnv [clickAt 110 70] (handleTabSwitch Tab_integrate readyState))
       = None
   \<and> foregroundHotspot (clicks exampleEnv [clickAt 110 70, clickAt 510 270]
         (handleTabSwitch Tab_integrate readyState)) = Some \<lparr> pt_x = 200, pt_y = 100 \<rparr>
   \<and> backgroundHotspot (clicks exampleEnv [clickAt 110 70, clickAt 510 270]
         (handleTabSwitch Tab_integrate readyState)) = Some \<lparr> pt_x = 1000, pt_y = 500 \<rparr>
   \<and> foregroundHotspot (clicks exampleEnv [clickAt 110 70, clickAt 510 270, clickAt 11 21]
         (handleTabSwitch Tab_integrate readyState)) = Some \<lparr> pt_x = 2, pt_y = 2 \<rparr>
   \<and> backgroundHotspot (clicks exampleEnv [clickAt 110 70, clickAt 510 270, clickAt 11 21]
         (handleTabSwitch Tab_integrate readyState)) = None
   \<and> hotspots_ok (clicks exampleEnv [clickAt 110 70, clickAt 510 270, clickAt 11 21]
         (handleTabSwitch Tab_integrate readyState))"
proof -
  let ?s0 = "handleTabSwitch Tab_integrate readyState"
  let ?s1 = "handleImageClick exampleEnv (clickAt 110 70) ?s0"
  let ?s2 = "handleImageClick exampleEnv (clickAt 510 270) ?s1"
  let ?s3 = "handleImageClick exampleEnv (clickAt 11 21) ?s2"
  have s0: "activeTab ?s0 = Tab_integrate" "foregroundHotspot ?s0 = None"
    by (simp_all add: handleTabSwitch_def clearInteractionPoints_def)
  have c1: "foregroundHotspot ?s1 = Some \<lparr> pt_x = 200, pt_y = 100 \<rparr>" "backgroundHotspot ?s1 = None"
    using integrate_clicks [of ?s0 exampleEnv "clickAt 110 70"] s0
    by (simp_all add: example_points)
  have c2: "foregroundHotspot ?s2 = Some \<lparr> pt_x = 200, pt_y = 100 \<rparr>"
    "backgroundHotspot ?s2 = Some \<lparr> pt_x = 1000, pt_y = 500 \<rparr>"
    using integrate_clicks [of ?s1 exampleEnv "clickAt 510 270"] s0 c1
    by (simp_all add: example_points)
  have c3: "foregroundHotspot ?s3 = Some \<lparr> pt_x = 2, pt_y = 2 \<rparr>" "backgroundHotspot ?s3 = None"
    using integrate_clicks [of ?s2 exampleEnv "clickAt 11 21"] s0 c2
    by (simp_all add: example_points)
  have ok: "hotspots_ok ?s3"
    using integrate_clicks [of ?s2 exampleEnv "clickAt 11 21"] s0 by simp
  show ?thesis
    using c1 c2 c3 ok by (simp add: clicks_def)
qed



subsection \<open>Rounding\<close>

lemma Math_round_of_int [simp]: "Math_round (real_of_int n) = n"
  unfolding Math_round_def by linarith

lemma Math_round_of_nat [simp]: "Math_round (real n) = int n"
  unfolding Math_round_def by linarith

lemma Math_round_mono: "x \<le> y \<Longrightarrow> Math_round x \<le> Math_round y"
  unfolding Math_round_def by (intro floor_mono) simp

lemma Math_round_ge: "real_of_int n - 1 / 2 \<le> y \<Longrightarrow> n \<le> Math_round y"
  unfolding Math_round_def by linarith

lemma Math_round_le: "y < real_of_int n + 1 / 2 \<Longrightarrow> Math_round y \<le> n"
  unfolding Math_round_def by linarith

lemma Math_round_near: "\<bar>real_of_int (Math_round y) - y\<bar> \<le> 1 / 2"
  unfolding Math_round_def by linarith

lemma rnd_mono: "double_rounding rnd \<Longrightarrow> x \<le> y \<Longrightarrow> rnd x \<le> rnd y"
  by (simp add: double_rounding_def)

lemma rnd_int: "double_rounding rnd \<Longrightarrow> \<bar>n\<bar> \<le> 2 ^ 53 \<Longrightarrow> rnd (real_of_int n) = real_of_int n"
  by (simp add: double_rounding_def)

lemma rnd_half:
  "double_rounding rnd \<Longrightarrow> \<bar>n\<bar> \<le> 2 ^ 53 \<Longrightarrow> rnd (real_of_int n / 2) = real_of_int n / 2"
  by (simp add: double_rounding_def)

lemma rnd_nat: "double_rounding rnd \<Longrightarrow> n < 2 ^ 32 \<Longrightarrow> rnd (real n) = real n"
  using rnd_int [of rnd "int n"] by simp

text \<open>The relative error, on the part of the normal range that the geometry meets.\<close>

lemma rnd_err:
  assumes "double_rounding rnd" and "1 / 2 ^ 64 \<le> x" and "x \<le> 2 ^ 70"
  shows "\<bar>rnd x - x\<bar> \<le> x / 2 ^ 53"
proof -
  have "(0::real) < 1 / 2 ^ 64" by simp
  with assms(2) have pos: "0 < x" by linarith
  have "(1::real) / 2 ^ 1022 \<le> 1 / 2 ^ 64"
    by (intro divide_left_mono power_increasing) simp_all
  with assms(2) pos have lo: "1 / 2 ^ 1022 \<le> \<bar>x\<bar>" by linarith
  have "(2::real) ^ 70 \<le> 2 ^ 1023"
    by (intro power_increasing) simp_all
  with assms(3) pos have hi: "\<bar>x\<bar> \<le> 2 ^ 1023" by linarith
  have "\<bar>rnd x - x\<bar> \<le> \<bar>x\<bar> / 2 ^ 53"
    using assms(1) lo hi unfolding double_rounding_def by blast
  with pos show ?thesis by simp
qed



subsection \<open>The final size\<close>

lemma grow_height:
  assumes dr: "double_rounding rnd" and rr: "rnd r = r" and r: "0 < r"
    and h: "0 < h" "h < 2 ^ 32"
    and q: "rnd (real w / real h) > r"
  shows "int h \<le> Math_round (rnd (real w / r))"
proof -
  have "\<not> real w / real h \<le> r"
  proof
    assume "real w / real h \<le> r"
    then have "rnd (real w / real h) \<le> rnd r" by (rule rnd_mono [OF dr])
    with rr q show False by simp
  qed
  then have "r < real w / real h" by simp
  then have "r * real h < real w" using h(1) by (simp add: pos_less_divide_eq)
  then have "real h < real w / r" using r by (simp add: pos_less_divide_eq mult.commute)
  then have "real h \<le> real w / r" by simp
  then have "rnd (real h) \<le> rnd (real w / r)" by (rule rnd_mono [OF dr])
  then have "real h \<le> rnd (real w / r)" using rnd_nat [OF dr h(2)] by simp
  then have "Math_round (real h) \<le> Math_round (rnd (real w / r))"
    by (rule Math_round_mono)
  then show ?thesis by simp
qed

lemma quotient_range:
  assumes "0 < w" "w < 2 ^ 32" "0 < h" "h < 2 ^ 32"
  shows "1 / 2 ^ 64 \<le> real w / real h" and "real w / real h \<le> 2 ^ 70"
proof -
  have w: "1 \<le> real w" "real w \<le> 2 ^ 32" and h: "1 \<le> real h" "real h \<le> 2 ^ 32"
    using assms by (simp_all add: Suc_leI)
  have "real w / real h \<le> real w / 1"
    using w h by (intro divide_left_mono) simp_all
  also have "\<dots> \<le> 2 ^ 70" using w by simp
  finally show "real w / real h \<le> 2 ^ 70" .
  have "(1::real) / 2 ^ 64 \<le> 1 / 2 ^ 32" by simp
  also have "\<dots> \<le> 1 / real h" using h by (intro divide_left_mono) simp_all
  also have "\<dots> \<le> real w / real h" using w h by (intro divide_right_mono) simp_all
  finally show "1 / 2 ^ 64 \<le> real w / real h" .
qed

lemma grow_width:
  assumes dr: "double_rounding rnd" and r: "0 < r"
    and w: "0 < w" "w < 2 ^ 32" and h: "0 < h" "h < 2 ^ 32"
    and q: "\<not> rnd (real w / real h) > r"
  shows "int w \<le> Math_round (rnd (real h * r))"
proof -
  let ?q = "real w / real h"
  have e: "\<bar>rnd ?q - ?q\<bar> \<le> ?q / 2 ^ 53"
    using dr quotient_range [OF w h] by (rule rnd_err)
  have hp: "0 < real h" using h(1) by simp
  have "?q - ?q / 2 ^ 53 \<le> r" using e q by linarith
  then have "real h * (?q - ?q / 2 ^ 53) \<le> real h * r"
    using hp by (intro mult_left_mono) simp_all
  moreover have "real h * (?q - ?q / 2 ^ 53) = real w - real w / 2 ^ 53"
    using hp by (simp add: field_simps)
  ultimately have lo: "real w - real w / 2 ^ 53 \<le> real h * r" by simp
  have "real w \<le> 2 ^ 32" using w(2) by simp
  then have "real w / 2 ^ 53 \<le> 2 ^ 32 / 2 ^ 53" by (intro divide_right_mono) simp_all
  also have "\<dots> \<le> (1::real) / 2" by simp
  finally have "real w - 1 / 2 \<le> real h * r" using lo by linarith
  then have "rnd (real w - 1 / 2) \<le> rnd (real h * r)" by (rule rnd_mono [OF dr])
  moreover have "rnd (real w - 1 / 2) = real w - 1 / 2"
  proof -
    have "\<bar>2 * int w - 1\<bar> \<le> 2 ^ 53" using w by simp
    from rnd_half [OF dr this] show ?thesis by (simp add: field_simps)
  qed
  ultimately have "real_of_int (int w) - 1 / 2 \<le> rnd (real h * r)" by simp
  then show ?thesis by (rule Math_round_ge)
qed

lemma rounded_accuracy:
  assumes "double_rounding rnd" and "1 / 2 ^ 64 \<le> v" and "v \<le> 2 ^ 70"
  shows "\<bar>real_of_int (Math_round (rnd v)) - v\<bar> \<le> 1 / 2 + v / 2 ^ 53"
  using rnd_err [OF assms] Math_round_near [of "rnd v"] by linarith

lemma rounded_bound:
  assumes "double_rounding rnd" and "1 / 2 ^ 64 \<le> v" and "v \<le> 2 ^ 64"
  shows "Math_round (rnd v) \<le> 2 ^ 65"
proof -
  have "v \<le> 2 ^ 70" using assms(3) by simp
  from rounded_accuracy [OF assms(1,2) this]
  have "real_of_int (Math_round (rnd v)) \<le> v + 1 / 2 + v / 2 ^ 53" by linarith
  moreover have "v / 2 ^ 53 \<le> 2 ^ 64 / 2 ^ 53" using assms(3) by (intro divide_right_mono) simp_all
  ultimately have "real_of_int (Math_round (rnd v)) \<le> 2 ^ 65" using assms(3) by simp
  then show ?thesis by (metis of_int_le_iff of_int_numeral of_int_power)
qed



subsection \<open>The scale factor\<close>

lemma scale_range:
  assumes m: "2048 < m" "m \<le> 2 ^ 65"
  shows "1 / 2 ^ 64 \<le> 2048 / real_of_int m" and "2048 / real_of_int m \<le> 2048 / 2049"
proof -
  have lo: "2049 \<le> real_of_int m" using m(1) by linarith
  have hi: "real_of_int m \<le> 2 ^ 65" using m(2) by (metis of_int_le_iff of_int_numeral of_int_power)
  have "(1::real) / 2 ^ 64 \<le> 2048 / 2 ^ 65" by simp
  also have "\<dots> \<le> 2048 / real_of_int m" using lo hi by (intro divide_left_mono) simp_all
  finally show "1 / 2 ^ 64 \<le> 2048 / real_of_int m" .
  show "2048 / real_of_int m \<le> 2048 / 2049" using lo by (intro divide_left_mono) simp_all
qed

lemma scale_error:
  assumes dr: "double_rounding rnd" and m: "2048 < m" "m \<le> 2 ^ 65"
  shows "\<bar>rnd (2048 / real_of_int m) - 2048 / real_of_int m\<bar> \<le> (2048 / real_of_int m) / 2 ^ 53"
proof -
  have "2048 / real_of_int m \<le> 2 ^ 70" using scale_range(2) [OF m] by simp
  with dr scale_range(1) [OF m] show ?thesis by (rule rnd_err)
qed

lemma scale_positive:
  assumes dr: "double_rounding rnd" and m: "2048 < m" "m \<le> 2 ^ 65"
  shows "0 < rnd (2048 / real_of_int m)" and "rnd (2048 / real_of_int m) < 1"
proof -
  let ?x = "2048 / real_of_int m"
  have e: "\<bar>rnd ?x - ?x\<bar> \<le> ?x / 2 ^ 53" using dr m by (rule scale_error)
  have x: "1 / 2 ^ 64 \<le> ?x" "?x \<le> 2048 / 2049" using scale_range [OF m] by simp_all
  have p: "0 < ?x" using x(1) by (meson divide_pos_pos less_le_trans zero_less_numeral zero_less_one zero_less_power)
  have "?x / 2 ^ 53 < ?x" using p by (simp add: field_simps)
  with e show "0 < rnd ?x" by linarith
  have "?x / 2 ^ 53 \<le> (2048 / 2049) / 2 ^ 53" using x(2) by (intro divide_right_mono) simp_all
  with e x(2) have "rnd ?x \<le> 2048 / 2049 + (2048 / 2049) / 2 ^ 53" by linarith
  also have "\<dots> < 1" by simp
  finally show "rnd ?x < 1" .
qed

text \<open>The longer side, scaled, is the maximum.\<close>

lemma scaled_longer_side:
  assumes dr: "double_rounding rnd" and m: "2048 < m" "m \<le> 2 ^ 65"
  shows "Math_round (rnd (real_of_int m * rnd (2048 / real_of_int m))) = 2048"
proof -
  let ?M = "real_of_int m"
  let ?x = "2048 / ?M"
  let ?y = "?M * rnd ?x"
  have M: "0 < ?M" using m(1) by linarith
  have e: "\<bar>rnd ?x - ?x\<bar> \<le> ?x / 2 ^ 53" using dr m by (rule scale_error)
  have "?y - 2048 = ?M * (rnd ?x - ?x)" using M by (simp add: field_simps)
  then have "\<bar>?y - 2048\<bar> = ?M * \<bar>rnd ?x - ?x\<bar>" using M by (simp add: abs_mult)
  also have "\<dots> \<le> ?M * (?x / 2 ^ 53)" using M e by (intro mult_left_mono) simp_all
  also have "\<dots> = 2048 / 2 ^ 53" using M by simp
  finally have y: "\<bar>?y - 2048\<bar> \<le> 2048 / 2 ^ 53" .
  have "(2048::real) / 2 ^ 53 \<le> 1" by simp
  with y have yr: "2047 \<le> ?y" "?y \<le> 2049" by linarith+
  have "(1::real) / 2 ^ 64 \<le> 2047" by simp
  with yr have r1: "1 / 2 ^ 64 \<le> ?y" by linarith
  have "(2049::real) \<le> 2 ^ 70" by simp
  with yr have r2: "?y \<le> 2 ^ 70" by linarith
  have "\<bar>rnd ?y - ?y\<bar> \<le> ?y / 2 ^ 53" using dr r1 r2 by (rule rnd_err)
  moreover have "?y / 2 ^ 53 \<le> 2049 / 2 ^ 53" using yr by (intro divide_right_mono) simp_all
  ultimately have "\<bar>rnd ?y - 2048\<bar> \<le> 2048 / 2 ^ 53 + 2049 / 2 ^ 53" using y by linarith
  also have "\<dots> < (1::real) / 2" by simp
  finally have "\<bar>rnd ?y - 2048\<bar> < 1 / 2" .
  then show ?thesis unfolding Math_round_def by linarith
qed

lemma scaled_mono:
  assumes dr: "double_rounding rnd" and "0 \<le> sf" and "a \<le> b"
  shows "Math_round (rnd (a * sf)) \<le> Math_round (rnd (b * sf))"
proof -
  have "a * sf \<le> b * sf" using assms(2,3) by (rule mult_right_mono [rotated])
  then have "rnd (a * sf) \<le> rnd (b * sf)" by (rule rnd_mono [OF dr])
  then show ?thesis by (rule Math_round_mono)
qed

lemma scaled_nonneg:
  assumes dr: "double_rounding rnd" and "0 \<le> sf" and "0 \<le> a"
  shows "0 \<le> Math_round (rnd (a * sf))"
proof -
  have "Math_round (rnd (0 * sf)) \<le> Math_round (rnd (a * sf))"
    using dr assms(2,3) by (rule scaled_mono)
  moreover have "rnd 0 = 0" using rnd_int [OF dr, of 0] by simp
  ultimately show ?thesis using Math_round_of_int [of 0] by simp
qed

text \<open>The offset of the centred image: a half of an integer, which no rounding changes.\<close>

lemma centred_offset:
  assumes dr: "double_rounding rnd" and "\<bar>c - d\<bar> \<le> 2 ^ 53"
  shows "rnd (rnd (real_of_int c - real_of_int d) / 2) = (real_of_int c - real_of_int d) / 2"
proof -
  have "rnd (real_of_int (c - d)) = real_of_int (c - d)" using dr assms(2) by (rule rnd_int)
  moreover have "rnd (real_of_int (c - d) / 2) = real_of_int (c - d) / 2"
    using dr assms(2) by (rule rnd_half)
  ultimately show ?thesis by simp
qed



subsection \<open>The canvas of an expansion\<close>

lemma geometry_fields:
  "finalWidth (expansionGeometry rnd w h r)
     = (if rnd (real w / real h) > r then int w else Math_round (rnd (real h * r)))"
  "finalHeight (expansionGeometry rnd w h r)
     = (if rnd (real w / real h) > r then Math_round (rnd (real w / r)) else int h)"
  "scaleFactor (expansionGeometry rnd w h r)
     = (if finalWidth (expansionGeometry rnd w h r) > 2048
           \<or> finalHeight (expansionGeometry rnd w h r) > 2048
        then (if finalWidth (expansionGeometry rnd w h r) > finalHeight (expansionGeometry rnd w h r)
              then rnd (2048 / real_of_int (finalWidth (expansionGeometry rnd w h r)))
              else rnd (2048 / real_of_int (finalHeight (expansionGeometry rnd w h r))))
        else 1)"
  "modelCanvasWidth (expansionGeometry rnd w h r)
     = Math_round (rnd (real_of_int (finalWidth (expansionGeometry rnd w h r))
                          * scaleFactor (expansionGeometry rnd w h r)))"
  "modelCanvasHeight (expansionGeometry rnd w h r)
     = Math_round (rnd (real_of_int (finalHeight (expansionGeometry rnd w h r))
                          * scaleFactor (expansionGeometry rnd w h r)))"
  "scaledOriginalWidth (expansionGeometry rnd w h r)
     = Math_round (rnd (real w * scaleFactor (expansionGeometry rnd w h r)))"
  "scaledOriginalHeight (expansionGeometry rnd w h r)
     = Math_round (rnd (real h * scaleFactor (expansionGeometry rnd w h r)))"
  "dxModel (expansionGeometry rnd w h r)
     = rnd (rnd (real_of_int (modelCanvasWidth (expansionGeometry rnd w h r))
                 - real_of_int (scaledOriginalWidth (expansionGeometry rnd w h r))) / 2)"
  "dyModel (expansionGeometry rnd w h r)
     = rnd (rnd (real_of_int (modelCanvasHeight (expansionGeometry rnd w h r))
                 - real_of_int (scaledOriginalHeight (expansionGeometry rnd w h r))) / 2)"
  by (simp_all add: expansionGeometry_def Let_def MODEL_MAX_DIM_def)

lemma ratio_range:
  assumes "0 < n" "n < 2 ^ 32" and "1 / 2 ^ 32 \<le> r" "r \<le> 2 ^ 32"
  shows "1 / 2 ^ 64 \<le> real n / r" "real n / r \<le> 2 ^ 64"
    and "1 / 2 ^ 64 \<le> real n * r" "real n * r \<le> 2 ^ 64"
proof -
  have n: "1 \<le> real n" "real n \<le> 2 ^ 32" using assms(1,2) by (simp_all add: Suc_leI)
  have "(0::real) < 1 / 2 ^ 32" by simp
  with assms(3) have r: "0 < r" by linarith
  have "real n / r \<le> real n / (1 / 2 ^ 32)"
    using n assms(3) by (intro divide_left_mono) simp_all
  also have "\<dots> = real n * 2 ^ 32" by simp
  also have "\<dots> \<le> 2 ^ 32 * 2 ^ 32" using n by (intro mult_right_mono) simp_all
  also have "\<dots> = (2::real) ^ 64" by simp
  finally show "real n / r \<le> 2 ^ 64" .
  have "(1::real) / 2 ^ 64 \<le> 1 / 2 ^ 32" by simp
  also have "\<dots> \<le> 1 / r" using r assms(4) by (intro divide_left_mono) simp_all
  also have "\<dots> \<le> real n / r" using n r by (intro divide_right_mono) simp_all
  finally show "1 / 2 ^ 64 \<le> real n / r" .
  have "real n * r \<le> 2 ^ 32 * 2 ^ 32"
    using n r assms(4) by (intro mult_mono) simp_all
  also have "\<dots> = (2::real) ^ 64" by simp
  finally show "real n * r \<le> 2 ^ 64" .
  have "(1::real) / 2 ^ 64 \<le> 1 / 2 ^ 32" by simp
  also have "\<dots> \<le> r" by (rule assms(3))
  also have "\<dots> = 1 * r" by simp
  also have "\<dots> \<le> real n * r" using n r by (intro mult_right_mono) simp_all
  finally show "1 / 2 ^ 64 \<le> real n * r" .
qed



lemma final_size:
  assumes dr: "double_rounding rnd" and rr: "rnd r = r"
    and w: "0 < w" "w < 2 ^ 32" and h: "0 < h" "h < 2 ^ 32"
    and r: "1 / 2 ^ 32 \<le> r" "r \<le> 2 ^ 32"
  shows "rnd (real w / real h) > r \<Longrightarrow>
           finalWidth (expansionGeometry rnd w h r) = int w
           \<and> int h \<le> finalHeight (expansionGeometry rnd w h r)
           \<and> \<bar>real_of_int (finalHeight (expansionGeometry rnd w h r)) - real w / r\<bar>
               \<le> 1 / 2 + (real w / r) / 2 ^ 53"
    and "\<not> rnd (real w / real h) > r \<Longrightarrow>
           finalHeight (expansionGeometry rnd w h r) = int h
           \<and> int w \<le> finalWidth (expansionGeometry rnd w h r)
           \<and> \<bar>real_of_int (finalWidth (expansionGeometry rnd w h r)) - real h * r\<bar>
               \<le> 1 / 2 + (real h * r) / 2 ^ 53"
    and "int w \<le> finalWidth (expansionGeometry rnd w h r)"
    and "int h \<le> finalHeight (expansionGeometry rnd w h r)"
    and "finalWidth (expansionGeometry rnd w h r) \<le> 2 ^ 65"
    and "finalHeight (expansionGeometry rnd w h r) \<le> 2 ^ 65"
proof -
  let ?g = "expansionGeometry rnd w h r"
  have "(0::real) < 1 / 2 ^ 32" by simp
  with r(1) have rp: "0 < r" by linarith
  have wr: "1 / 2 ^ 64 \<le> real w / r" "real w / r \<le> 2 ^ 64"
    using ratio_range [OF w r] by simp_all
  have hr: "1 / 2 ^ 64 \<le> real h * r" "real h * r \<le> 2 ^ 64"
    using ratio_range [OF h r] by simp_all
  have wb: "int w \<le> 2 ^ 65" "int h \<le> 2 ^ 65"
  proof -
    have "int w \<le> 2 ^ 32" "int h \<le> 2 ^ 32"
      using w(2) h(2) by (metis less_imp_le of_nat_le_iff of_nat_numeral of_nat_power)+
    moreover have "(2::int) ^ 32 \<le> 2 ^ 65" by simp
    ultimately show "int w \<le> 2 ^ 65" "int h \<le> 2 ^ 65" by linarith+
  qed
  have a: "finalWidth ?g = int w \<and> int h \<le> finalHeight ?g
      \<and> \<bar>real_of_int (finalHeight ?g) - real w / r\<bar> \<le> 1 / 2 + (real w / r) / 2 ^ 53
      \<and> finalHeight ?g \<le> 2 ^ 65"
    if q: "rnd (real w / real h) > r"
  proof -
    have f: "finalWidth ?g = int w" "finalHeight ?g = Math_round (rnd (real w / r))"
      using q by (simp_all add: geometry_fields)
    have "int h \<le> Math_round (rnd (real w / r))"
      using dr rr rp h q by (rule grow_height)
    moreover have "\<bar>real_of_int (Math_round (rnd (real w / r))) - real w / r\<bar>
        \<le> 1 / 2 + (real w / r) / 2 ^ 53"
      using dr wr(1) by (rule rounded_accuracy) (use wr(2) in simp)
    moreover have "Math_round (rnd (real w / r)) \<le> 2 ^ 65"
      using dr wr by (rule rounded_bound)
    ultimately show ?thesis using f by simp
  qed
  have b: "finalHeight ?g = int h \<and> int w \<le> finalWidth ?g
      \<and> \<bar>real_of_int (finalWidth ?g) - real h * r\<bar> \<le> 1 / 2 + (real h * r) / 2 ^ 53
      \<and> finalWidth ?g \<le> 2 ^ 65"
    if q: "\<not> rnd (real w / real h) > r"
  proof -
    have f: "finalHeight ?g = int h" "finalWidth ?g = Math_round (rnd (real h * r))"
      using q by (simp_all add: geometry_fields)
    have "int w \<le> Math_round (rnd (real h * r))"
      using dr rp w h q by (rule grow_width)
    moreover have "\<bar>real_of_int (Math_round (rnd (real h * r))) - real h * r\<bar>
        \<le> 1 / 2 + (real h * r) / 2 ^ 53"
      using dr hr(1) by (rule rounded_accuracy) (use hr(2) in simp)
    moreover have "Math_round (rnd (real h * r)) \<le> 2 ^ 65"
      using dr hr by (rule rounded_bound)
    ultimately show ?thesis using f by simp
  qed
  show "rnd (real w / real h) > r \<Longrightarrow>
           finalWidth ?g = int w \<and> int h \<le> finalHeight ?g
           \<and> \<bar>real_of_int (finalHeight ?g) - real w / r\<bar> \<le> 1 / 2 + (real w / r) / 2 ^ 53"
    using a by simp
  show "\<not> rnd (real w / real h) > r \<Longrightarrow>
           finalHeight ?g = int h \<and> int w \<le> finalWidth ?g
           \<and> \<bar>real_of_int (finalWidth ?g) - real h * r\<bar> \<le> 1 / 2 + (real h * r) / 2 ^ 53"
    using b by simp
  show "int w \<le> finalWidth ?g" using a b by (cases "rnd (real w / real h) > r") simp_all
  show "int h \<le> finalHeight ?g" using a b by (cases "rnd (real w / real h) > r") simp_all
  show "finalWidth ?g \<le> 2 ^ 65" using a b wb by (cases "rnd (real w / real h) > r") simp_all
  show "finalHeight ?g \<le> 2 ^ 65" using a b wb by (cases "rnd (real w / real h) > r") simp_all
qed

lemma unscaled_canvas:
  assumes dr: "double_rounding rnd"
    and w: "w < 2 ^ 32" and h: "h < 2 ^ 32"
    and f: "0 \<le> finalWidth (expansionGeometry rnd w h r)" "0 \<le> finalHeight (expansionGeometry rnd w h r)"
    and s: "finalWidth (expansionGeometry rnd w h r) \<le> 2048"
      "finalHeight (expansionGeometry rnd w h r) \<le> 2048"
  shows "scaleFactor (expansionGeometry rnd w h r) = 1"
    and "modelCanvasWidth (expansionGeometry rnd w h r) = finalWidth (expansionGeometry rnd w h r)"
    and "modelCanvasHeight (expansionGeometry rnd w h r) = finalHeight (expansionGeometry rnd w h r)"
    and "scaledOriginalWidth (expansionGeometry rnd w h r) = int w"
    and "scaledOriginalHeight (expansionGeometry rnd w h r) = int h"
proof -
  let ?g = "expansionGeometry rnd w h r"
  show sf: "scaleFactor ?g = 1"
    using s by (subst geometry_fields(3)) simp
  have "\<bar>finalWidth ?g\<bar> \<le> 2 ^ 53" "\<bar>finalHeight ?g\<bar> \<le> 2 ^ 53"
    using f s by simp_all
  then have "rnd (real_of_int (finalWidth ?g)) = real_of_int (finalWidth ?g)"
    "rnd (real_of_int (finalHeight ?g)) = real_of_int (finalHeight ?g)"
    using dr by (simp_all add: rnd_int)
  then show "modelCanvasWidth ?g = finalWidth ?g" "modelCanvasHeight ?g = finalHeight ?g"
    by (simp_all add: geometry_fields(4,5) sf)
  show "scaledOriginalWidth ?g = int w" "scaledOriginalHeight ?g = int h"
    using rnd_nat [OF dr w] rnd_nat [OF dr h] by (simp_all add: geometry_fields(6,7) sf)
qed

lemma scaled_canvas:
  assumes dr: "double_rounding rnd"
    and f: "0 \<le> finalWidth (expansionGeometry rnd w h r)" "0 \<le> finalHeight (expansionGeometry rnd w h r)"
      "finalWidth (expansionGeometry rnd w h r) \<le> 2 ^ 65"
      "finalHeight (expansionGeometry rnd w h r) \<le> 2 ^ 65"
    and s: "finalWidth (expansionGeometry rnd w h r) > 2048
      \<or> finalHeight (expansionGeometry rnd w h r) > 2048"
  shows "max (modelCanvasWidth (expansionGeometry rnd w h r))
             (modelCanvasHeight (expansionGeometry rnd w h r)) = 2048"
    and "0 < scaleFactor (expansionGeometry rnd w h r)"
    and "scaleFactor (expansionGeometry rnd w h r) < 1"
    and "\<bar>scaleFactor (expansionGeometry rnd w h r)
          - 2048 / real_of_int (max (finalWidth (expansionGeometry rnd w h r))
                                    (finalHeight (expansionGeometry rnd w h r)))\<bar>
         \<le> (2048 / real_of_int (max (finalWidth (expansionGeometry rnd w h r))
                                    (finalHeight (expansionGeometry rnd w h r)))) / 2 ^ 53"
proof -
  let ?g = "expansionGeometry rnd w h r"
  let ?m = "max (finalWidth ?g) (finalHeight ?g)"
  have m: "2048 < ?m" "?m \<le> 2 ^ 65" using s f(3,4) by auto
  have sf: "scaleFactor ?g = rnd (2048 / real_of_int ?m)"
    using s by (subst geometry_fields(3)) (auto simp: max_def)
  show p: "0 < scaleFactor ?g" and "scaleFactor ?g < 1"
    using scale_positive [OF dr m] by (simp_all add: sf)
  show "\<bar>scaleFactor ?g - 2048 / real_of_int ?m\<bar> \<le> (2048 / real_of_int ?m) / 2 ^ 53"
    using scale_error [OF dr m] by (simp add: sf)
  have long: "Math_round (rnd (real_of_int ?m * scaleFactor ?g)) = 2048"
    using scaled_longer_side [OF dr m] by (simp add: sf)
  have p0: "0 \<le> scaleFactor ?g" using p by simp
  show "max (modelCanvasWidth ?g) (modelCanvasHeight ?g) = 2048"
  proof (cases "finalWidth ?g > finalHeight ?g")
    case True
    then have e: "?m = finalWidth ?g" by simp
    have cw: "modelCanvasWidth ?g = 2048"
      using long e by (simp add: geometry_fields(4))
    have "real_of_int (finalHeight ?g) \<le> real_of_int (finalWidth ?g)" using True by simp
    with dr p0 have "Math_round (rnd (real_of_int (finalHeight ?g) * scaleFactor ?g))
        \<le> Math_round (rnd (real_of_int (finalWidth ?g) * scaleFactor ?g))"
      by (rule scaled_mono)
    then have "modelCanvasHeight ?g \<le> modelCanvasWidth ?g"
      by (simp add: geometry_fields(4,5))
    with cw show ?thesis by simp
  next
    case False
    then have e: "?m = finalHeight ?g" by simp
    have ch: "modelCanvasHeight ?g = 2048"
      using long e by (simp add: geometry_fields(5))
    have "real_of_int (finalWidth ?g) \<le> real_of_int (finalHeight ?g)" using False by simp
    with dr p0 have "Math_round (rnd (real_of_int (finalWidth ?g) * scaleFactor ?g))
        \<le> Math_round (rnd (real_of_int (finalHeight ?g) * scaleFactor ?g))"
      by (rule scaled_mono)
    then have "modelCanvasWidth ?g \<le> modelCanvasHeight ?g"
      by (simp add: geometry_fields(4,5))
    with ch show ?thesis by simp
  qed
qed



lemma example_geometry:
  assumes dr: "double_rounding rnd"
  shows "expansionGeometry rnd 1000 500 1
     = \<lparr> finalWidth = 1000, finalHeight = 1000, scaleFactor = 1,
         modelCanvasWidth = 1000, modelCanvasHeight = 1000,
         scaledOriginalWidth = 1000, scaledOriginalHeight = 500,
         dxModel = 0, dyModel = 250 \<rparr>"
proof -
  have n: "rnd 0 = 0" "rnd 1 = 1" "rnd 2 = 2" "rnd 250 = 250" "rnd 500 = 500" "rnd 1000 = 1000"
    using rnd_int [OF dr, of 0] rnd_int [OF dr, of 1] rnd_int [OF dr, of 2]
      rnd_int [OF dr, of 250] rnd_int [OF dr, of 500] rnd_int [OF dr, of 1000]
    by simp_all
  have m: "Math_round 1000 = 1000" "Math_round 500 = 500"
    using Math_round_of_int [of 1000] Math_round_of_int [of 500] by simp_all
  show ?thesis
    by (simp add: expansionGeometry_def Let_def MODEL_MAX_DIM_def n m)
qed

text \<open>
  Claim C3. For an image of positive size below \<open>2^32\<close> and a target ratio that is a double
  between \<open>2^-32\<close> and \<open>2^32\<close>: the final size keeps one dimension of the image and grows
  the other to the nearest integer of what the ratio asks (up to the rounding of the
  division or product), never below the image; if neither exceeds 2048 nothing is scaled;
  otherwise canvas and image are scaled by one factor, the rounded quotient of 2048 by the
  longer side, and the longer side of the canvas is 2048. The scaled image fits the canvas
  and is centred: each offset is half the difference. An image of 1000 by 500 with ratio 1
  gets a canvas of 1000 by 1000, unscaled, with offsets 0 and 250.
\<close>
theorem expansion_geometry:
  fixes rnd :: "real \<Rightarrow> real" and w h :: nat and r :: real
  assumes dr: "double_rounding rnd" and rr: "rnd r = r"
    and w: "0 < w" "w < 2 ^ 32" and h: "0 < h" "h < 2 ^ 32"
    and r: "1 / 2 ^ 32 \<le> r" "r \<le> 2 ^ 32"
  defines "g \<equiv> expansionGeometry rnd w h r"
  shows "(rnd (real w / real h) > r \<longrightarrow>
            finalWidth g = int w \<and> int h \<le> finalHeight g
            \<and> \<bar>real_of_int (finalHeight g) - real w / r\<bar> \<le> 1 / 2 + (real w / r) / 2 ^ 53)
       \<and> (\<not> rnd (real w / real h) > r \<longrightarrow>
            finalHeight g = int h \<and> int w \<le> finalWidth g
            \<and> \<bar>real_of_int (finalWidth g) - real h * r\<bar> \<le> 1 / 2 + (real h * r) / 2 ^ 53)
       \<and> (finalWidth g \<le> 2048 \<and> finalHeight g \<le> 2048 \<longrightarrow>
            scaleFactor g = 1 \<and> modelCanvasWidth g = finalWidth g
            \<and> modelCanvasHeight g = finalHeight g
            \<and> scaledOriginalWidth g = int w \<and> scaledOriginalHeight g = int h)
       \<and> (finalWidth g > 2048 \<or> finalHeight g > 2048 \<longrightarrow>
            max (modelCanvasWidth g) (modelCanvasHeight g) = 2048
            \<and> 0 < scaleFactor g \<and> scaleFactor g < 1
            \<and> \<bar>scaleFactor g - 2048 / real_of_int (max (finalWidth g) (finalHeight g))\<bar>
                \<le> (2048 / real_of_int (max (finalWidth g) (finalHeight g))) / 2 ^ 53)
       \<and> modelCanvasWidth g = Math_round (rnd (real_of_int (finalWidth g) * scaleFactor g))
       \<and> modelCanvasHeight g = Math_round (rnd (real_of_int (finalHeight g) * scaleFactor g))
       \<and> scaledOriginalWidth g = Math_round (rnd (real w * scaleFactor g))
       \<and> scaledOriginalHeight g = Math_round (rnd (real h * scaleFactor g))
       \<and> modelCanvasWidth g \<le> 2048 \<and> modelCanvasHeight g \<le> 2048
       \<and> 0 \<le> scaledOriginalWidth g \<and> scaledOriginalWidth g \<le> modelCanvasWidth g
       \<and> 0 \<le> scaledOriginalHeight g \<and> scaledOriginalHeight g \<le> modelCanvasHeight g
       \<and> dxModel g = real_of_int (modelCanvasWidth g - scaledOriginalWidth g) / 2
       \<and> dyModel g = real_of_int (modelCanvasHeight g - scaledOriginalHeight g) / 2
       \<and> expansionGeometry rnd 1000 500 1
           = \<lparr> finalWidth = 1000, finalHeight = 1000, scaleFactor = 1,
               modelCanvasWidth = 1000, modelCanvasHeight = 1000,
               scaledOriginalWidth = 1000, scaledOriginalHeight = 500,
               dxModel = 0, dyModel = 250 \<rparr>"
proof -
  note fs = final_size [OF dr rr w h r, folded g_def]
  have fw: "int w \<le> finalWidth g" and fh: "int h \<le> finalHeight g"
    and fwb: "finalWidth g \<le> 2 ^ 65" and fhb: "finalHeight g \<le> 2 ^ 65"
    using fs(3-6) by simp_all
  have f0: "0 \<le> finalWidth g" "0 \<le> finalHeight g" using fw fh by simp_all
  have p1: "rnd (real w / real h) > r \<longrightarrow>
            finalWidth g = int w \<and> int h \<le> finalHeight g
            \<and> \<bar>real_of_int (finalHeight g) - real w / r\<bar> \<le> 1 / 2 + (real w / r) / 2 ^ 53"
    using fs(1) by blast
  have p2: "\<not> rnd (real w / real h) > r \<longrightarrow>
            finalHeight g = int h \<and> int w \<le> finalWidth g
            \<and> \<bar>real_of_int (finalWidth g) - real h * r\<bar> \<le> 1 / 2 + (real h * r) / 2 ^ 53"
    using fs(2) by blast
  note un = unscaled_canvas [OF dr w(2) h(2), of r, folded g_def]
  have p3: "finalWidth g \<le> 2048 \<and> finalHeight g \<le> 2048 \<longrightarrow>
            scaleFactor g = 1 \<and> modelCanvasWidth g = finalWidth g
            \<and> modelCanvasHeight g = finalHeight g
            \<and> scaledOriginalWidth g = int w \<and> scaledOriginalHeight g = int h"
    using un f0 by blast
  note sc = scaled_canvas [OF dr, of w h r, folded g_def]
  have p4: "finalWidth g > 2048 \<or> finalHeight g > 2048 \<longrightarrow>
            max (modelCanvasWidth g) (modelCanvasHeight g) = 2048
            \<and> 0 < scaleFactor g \<and> scaleFactor g < 1
            \<and> \<bar>scaleFactor g - 2048 / real_of_int (max (finalWidth g) (finalHeight g))\<bar>
                \<le> (2048 / real_of_int (max (finalWidth g) (finalHeight g))) / 2 ^ 53"
    using sc f0 fwb fhb by blast
  note gf = geometry_fields [of rnd w h r, folded g_def]
  have s0: "0 \<le> scaleFactor g"
  proof (cases "finalWidth g > 2048 \<or> finalHeight g > 2048")
    case True
    with p4 show ?thesis by simp
  next
    case False
    with p3 show ?thesis by simp
  qed
  have cb: "modelCanvasWidth g \<le> 2048 \<and> modelCanvasHeight g \<le> 2048"
  proof (cases "finalWidth g > 2048 \<or> finalHeight g > 2048")
    case True
    with p4 have "max (modelCanvasWidth g) (modelCanvasHeight g) = 2048" by simp
    then show ?thesis by (simp add: max_def split: if_splits)
  next
    case False
    with p3 show ?thesis by simp
  qed
  have sw: "scaledOriginalWidth g \<le> modelCanvasWidth g"
  proof -
    have "real w \<le> real_of_int (finalWidth g)" using fw by linarith
    with dr s0 have "Math_round (rnd (real w * scaleFactor g))
        \<le> Math_round (rnd (real_of_int (finalWidth g) * scaleFactor g))"
      by (rule scaled_mono)
    then show ?thesis using gf(4,6) by simp
  qed
  have sh: "scaledOriginalHeight g \<le> modelCanvasHeight g"
  proof -
    have "real h \<le> real_of_int (finalHeight g)" using fh by linarith
    with dr s0 have "Math_round (rnd (real h * scaleFactor g))
        \<le> Math_round (rnd (real_of_int (finalHeight g) * scaleFactor g))"
      by (rule scaled_mono)
    then show ?thesis using gf(5,7) by simp
  qed
  have sw0: "0 \<le> scaledOriginalWidth g"
    using scaled_nonneg [OF dr s0, of "real w"] gf(6) by simp
  have sh0: "0 \<le> scaledOriginalHeight g"
    using scaled_nonneg [OF dr s0, of "real h"] gf(7) by simp
  have dx: "dxModel g = real_of_int (modelCanvasWidth g - scaledOriginalWidth g) / 2"
  proof -
    have "\<bar>modelCanvasWidth g - scaledOriginalWidth g\<bar> \<le> 2 ^ 53"
      using cb sw sw0 by simp
    from centred_offset [OF dr this] show ?thesis using gf(8) by simp
  qed
  have dy: "dyModel g = real_of_int (modelCanvasHeight g - scaledOriginalHeight g) / 2"
  proof -
    have "\<bar>modelCanvasHeight g - scaledOriginalHeight g\<bar> \<le> 2 ^ 53"
      using cb sh sh0 by simp
    from centred_offset [OF dr this] show ?thesis using gf(9) by simp
  qed
  show ?thesis
    using p1 p2 p3 p4 gf(4-7) cb sw sh sw0 sh0 dx dy example_geometry [OF dr]
    by blast
qed



lemma exact_rounding: "double_rounding (\<lambda>v. v)"
  by (simp add: double_rounding_def)

theorem expansion_geometry_witness:
  "double_rounding (\<lambda>v. v)
   \<and> expansionGeometry (\<lambda>v. v) 1000 500 1
       = \<lparr> finalWidth = 1000, finalHeight = 1000, scaleFactor = 1,
           modelCanvasWidth = 1000, modelCanvasHeight = 1000,
           scaledOriginalWidth = 1000, scaledOriginalHeight = 500,
           dxModel = 0, dyModel = 250 \<rparr>
   \<and> max (modelCanvasWidth (expansionGeometry (\<lambda>v. v) 3000 1500 1))
         (modelCanvasHeight (expansionGeometry (\<lambda>v. v) 3000 1500 1)) = 2048
   \<and> expansionGeometry (\<lambda>v. v) 3000 1500 1
       = \<lparr> finalWidth = 3000, finalHeight = 3000, scaleFactor = 2048 / 3000,
           modelCanvasWidth = 2048, modelCanvasHeight = 2048,
           scaledOriginalWidth = 2048, scaledOriginalHeight = 1024,
           dxModel = 0, dyModel = 512 \<rparr>
   \<and> expansionGeometry (\<lambda>v. v) 1920 1080 (4 / 3)
       = \<lparr> finalWidth = 1920, finalHeight = 1440, scaleFactor = 1,
           modelCanvasWidth = 1920, modelCanvasHeight = 1440,
           scaledOriginalWidth = 1920, scaledOriginalHeight = 1080,
           dxModel = 0, dyModel = 180 \<rparr>"
proof -
  have b: "(0::nat) < 1000" "(1000::nat) < 2 ^ 32" "(0::nat) < 500" "(500::nat) < 2 ^ 32"
    "(0::nat) < 3000" "(3000::nat) < 2 ^ 32" "(0::nat) < 1500" "(1500::nat) < 2 ^ 32"
    "(1::real) / 2 ^ 32 \<le> 1" "(1::real) \<le> 2 ^ 32"
    by simp_all
  have a: "expansionGeometry (\<lambda>v. v) 1000 500 1
       = \<lparr> finalWidth = 1000, finalHeight = 1000, scaleFactor = 1,
           modelCanvasWidth = 1000, modelCanvasHeight = 1000,
           scaledOriginalWidth = 1000, scaledOriginalHeight = 500,
           dxModel = 0, dyModel = 250 \<rparr>"
    using expansion_geometry [OF exact_rounding refl b(1-4) b(9,10)] by blast
  have e: "expansionGeometry (\<lambda>v. v) 3000 1500 1
       = \<lparr> finalWidth = 3000, finalHeight = 3000, scaleFactor = 2048 / 3000,
           modelCanvasWidth = 2048, modelCanvasHeight = 2048,
           scaledOriginalWidth = 2048, scaledOriginalHeight = 1024,
           dxModel = 0, dyModel = 512 \<rparr>"
    by (simp add: expansionGeometry_def Let_def MODEL_MAX_DIM_def Math_round_def)
  then have "finalWidth (expansionGeometry (\<lambda>v. v) 3000 1500 1) > 2048" by simp
  with expansion_geometry [OF exact_rounding refl b(5-8) b(9,10)]
  have c: "max (modelCanvasWidth (expansionGeometry (\<lambda>v. v) 3000 1500 1))
         (modelCanvasHeight (expansionGeometry (\<lambda>v. v) 3000 1500 1)) = 2048"
    by blast
  have d: "expansionGeometry (\<lambda>v. v) 1920 1080 (4 / 3)
       = \<lparr> finalWidth = 1920, finalHeight = 1440, scaleFactor = 1,
           modelCanvasWidth = 1920, modelCanvasHeight = 1440,
           scaledOriginalWidth = 1920, scaledOriginalHeight = 1080,
           dxModel = 0, dyModel = 180 \<rparr>"
    by (simp add: expansionGeometry_def Let_def MODEL_MAX_DIM_def Math_round_def)
  show ?thesis using exact_rounding a c e d by blast
qed

end
